theory Spec2Isabelle
  imports Complex_Main "HOL-Library.Word"
begin

section \<open>Values and errors\<close>

text \<open>
  What the program throws: the TypeError and SyntaxError of the language, the error of
  \<open>getDotMinecraft\<close>, and the rejection of a file-system call with its error code.
\<close>

datatype error = TypeError | SyntaxError | LocateError | FsError string

section \<open>Resource keys (src/item-editor/util/hash.ts)\<close>

text \<open>
  A JavaScript number is either a finite value or one of the three non-finite values.
  Finite values are given by the real number they denote.
\<close>

datatype number = Finite real | NaN | PosInfinity | NegInfinity

text \<open>
  The \<open>Item\<close> shape (at the end of src/shared/proto.ts). The \<open>components\<close> object is kept as the list of
  its own properties in enumeration order.
\<close>

record Item =
  minecraftVersion :: string
  id :: string
  count :: number
  components :: "(string \<times> string) list"

definition hashItemTexture :: "Item \<Rightarrow> string" where
  "hashItemTexture item = minecraftVersion item @ ''##'' @ id item"

definition hashResource :: "string \<Rightarrow> string \<Rightarrow> string" where
  "hashResource version resource = version @ ''##'' @ resource"

section \<open>Bitmap font builder (MinecraftBitmapFont.generate, unnamed/part_001)\<close>

text \<open>
  A character row is a JavaScript string, read by \<open>length\<close> and \<open>charCodeAt\<close>: a
  sequence of 16-bit code units.
\<close>

type_synonym code_unit = "16 word"

record MCFontProvider =
  ptype :: string
  pfile :: string
  pheight :: "int option"
  ascent :: int
  chars :: "code_unit list list"

record MCFontData =
  providers :: "MCFontProvider list"

text \<open>\<open>RawCharData\<close> as \<open>generate\<close> fills it; \<open>kerning\<close> is the empty object.\<close>

record RawCharData =
  char_id :: nat
  page :: nat
  x :: int
  y :: int
  width :: int
  height :: int
  letter :: "code_unit list"
  xAdvance :: int
  yOffset :: int
  xOffset :: int
  kerning :: "(nat \<times> int) list"

definition MC2PAGE :: "string \<Rightarrow> nat option" where
  "MC2PAGE f =
     (if f = ''minecraft:font/ascii.png'' then Some 0
      else if f = ''minecraft:font/accented.png'' then Some 1
      else if f = ''minecraft:font/nonlatin_european.png'' then Some 2
      else None)"

text \<open>
  The three atlas textures, by their pixel widths, in the order of the array
  \<open>[asciiFontTexture, accentFontTexture, nonlatinFontTexture]\<close>.
\<close>

record textures =
  asciiFontTexture :: nat
  accentFontTexture :: nat
  nonlatinFontTexture :: nat

definition texture_width :: "textures \<Rightarrow> nat \<Rightarrow> nat option" where
  "texture_width t p =
     (if p = 0 then Some (asciiFontTexture t)
      else if p = 1 then Some (accentFontTexture t)
      else if p = 2 then Some (nonlatinFontTexture t)
      else None)"

definition raw_char :: "nat \<Rightarrow> int \<Rightarrow> int \<Rightarrow> nat \<Rightarrow> nat \<Rightarrow> code_unit \<Rightarrow> RawCharData" where
  "raw_char p h w i j c =
     \<lparr> char_id = unat c, page = p, x = int j * w, y = int i * h, width = w, height = h,
       letter = [c], xAdvance = w, yOffset = 0, xOffset = 0, kerning = [] \<rparr>"

text \<open>The loop over \<open>j\<close>: one store \<open>chars[id] = {...}\<close> per code unit of the row.\<close>

fun char_loop ::
  "nat \<Rightarrow> int \<Rightarrow> int \<Rightarrow> nat \<Rightarrow> code_unit list \<Rightarrow> nat \<Rightarrow> (nat \<rightharpoonup> RawCharData) \<Rightarrow> (nat \<rightharpoonup> RawCharData)"
where
  "char_loop p h w i [] j tbl = tbl"
| "char_loop p h w i (c # cs) j tbl = char_loop p h w i cs (Suc j) (tbl(unat c \<mapsto> raw_char p h w i j c))"

text \<open>
  The loop over \<open>i\<close>. Reading \<open>textures[page]!.width\<close> throws a TypeError when the page
  is undefined, which happens at the first row of a provider whose file is not a key of
  \<open>MC2PAGE\<close>. The cell width is \<open>Math.floor(W / N)\<close>; for an empty row the quotient is
  not finite in JavaScript, but no character is stored with it.
\<close>

fun row_loop ::
  "textures \<Rightarrow> nat option \<Rightarrow> int \<Rightarrow> code_unit list list \<Rightarrow> nat \<Rightarrow> (nat \<rightharpoonup> RawCharData)
     \<Rightarrow> error + (nat \<rightharpoonup> RawCharData)"
where
  "row_loop t pg h [] i tbl = Inr tbl"
| "row_loop t pg h (r # rs) i tbl =
     (case pg of
        None \<Rightarrow> Inl TypeError
      | Some p \<Rightarrow>
          (case texture_width t p of
             None \<Rightarrow> Inl TypeError
           | Some W \<Rightarrow> row_loop t pg h rs (Suc i) (char_loop p h (int (W div length r)) i r 0 tbl)))"

definition provider_height :: "MCFontProvider \<Rightarrow> int" where
  "provider_height p = (case pheight p of None \<Rightarrow> 8 | Some h \<Rightarrow> h)"

fun provider_loop ::
  "textures \<Rightarrow> MCFontProvider list \<Rightarrow> (nat \<rightharpoonup> RawCharData) \<Rightarrow> error + (nat \<rightharpoonup> RawCharData)"
where
  "provider_loop t [] tbl = Inr tbl"
| "provider_loop t (p # ps) tbl =
     (case row_loop t (MC2PAGE (pfile p)) (provider_height p) (chars p) 0 tbl of
        Inl e \<Rightarrow> Inl e
      | Inr tbl' \<Rightarrow> provider_loop t ps tbl')"

text \<open>\<open>generate\<close> returns the font whose \<open>data.chars\<close> is the table built by the loops.\<close>

definition generate :: "textures \<Rightarrow> MCFontData \<Rightarrow> error + (nat \<rightharpoonup> RawCharData)" where
  "generate t d = provider_loop t (providers d) Map.empty"

subsection \<open>The glyph table as the specification words it\<close>

text \<open>
  Every character of a row of \<open>N\<close> characters on a page of width \<open>W\<close> gets the cell
  width \<open>W div N\<close>, the position (column * cell width, row index * row height), the cell
  width as advance, zero offsets and no kerning.
\<close>

definition spec_glyph :: "nat \<Rightarrow> nat \<Rightarrow> nat \<Rightarrow> int \<Rightarrow> nat \<Rightarrow> nat \<Rightarrow> code_unit \<Rightarrow> RawCharData" where
  "spec_glyph p W N rowHeight rowIndex column c =
     \<lparr> char_id = unat c, page = p,
       x = int column * int (W div N), y = int rowIndex * rowHeight,
       width = int (W div N), height = rowHeight, letter = [c],
       xAdvance = int (W div N), yOffset = 0, xOffset = 0, kerning = [] \<rparr>"

definition spec_row :: "nat \<Rightarrow> nat \<Rightarrow> int \<Rightarrow> nat \<Rightarrow> code_unit list \<Rightarrow> (nat \<times> RawCharData) list" where
  "spec_row p W rowHeight rowIndex r =
     map (\<lambda>(column, c). (unat c, spec_glyph p W (length r) rowHeight rowIndex column c))
       (enumerate 0 r)"

definition spec_provider :: "textures \<Rightarrow> MCFontProvider \<Rightarrow> (nat \<times> RawCharData) list" where
  "spec_provider t pr =
     (case MC2PAGE (pfile pr) of
        None \<Rightarrow> []
      | Some p \<Rightarrow>
          (case texture_width t p of
             None \<Rightarrow> []
           | Some W \<Rightarrow>
               concat (map (\<lambda>(rowIndex, r). spec_row p W (case pheight pr of None \<Rightarrow> 8 | Some h \<Rightarrow> h) rowIndex r)
                 (enumerate 0 (chars pr)))))"

text \<open>All assignments in processing order, and the table in which the last one wins.\<close>

definition spec_assignments :: "textures \<Rightarrow> MCFontData \<Rightarrow> (nat \<times> RawCharData) list" where
  "spec_assignments t d = concat (map (spec_provider t) (providers d))"

definition spec_glyph_table :: "textures \<Rightarrow> MCFontData \<Rightarrow> (nat \<rightharpoonup> RawCharData)" where
  "spec_glyph_table t d = map_of (rev (spec_assignments t d))"

text \<open>A manifest is recognised when every provider that has a row names a known atlas file.\<close>

definition recognised :: "MCFontData \<Rightarrow> bool" where
  "recognised d = list_all (\<lambda>p. chars p = [] \<or> MC2PAGE (pfile p) \<noteq> None) (providers d)"

text \<open>Example inputs: an atlas of width 130 holding a row of 16 glyphs, and later rows and
  providers that assign the code of \<open>A\<close> again.\<close>

definition ex_textures :: textures where
  "ex_textures = \<lparr> asciiFontTexture = 130, accentFontTexture = 128, nonlatinFontTexture = 64 \<rparr>"

definition ex_font :: MCFontData where
  "ex_font = \<lparr> providers =
     [\<lparr> ptype = ''bitmap'', pfile = ''minecraft:font/ascii.png'', pheight = None, ascent = 7,
        chars = [[0x40, 0x41, 0x42, 0x43, 0x44, 0x45, 0x46, 0x47,
                  0x48, 0x49, 0x4A, 0x4B, 0x4C, 0x4D, 0x4E, 0x4F],
                 [0x50, 0x41]] \<rparr>,
      \<lparr> ptype = ''bitmap'', pfile = ''minecraft:font/accented.png'', pheight = Some 12, ascent = 10,
        chars = [[0xC0, 0xC1], [0xC2, 0x42]] \<rparr>,
      \<lparr> ptype = ''space'', pfile = ''minecraft:font/none.png'', pheight = None, ascent = 0,
        chars = [] \<rparr>] \<rparr>"

definition bad_font :: MCFontData where
  "bad_font = \<lparr> providers =
     [\<lparr> ptype = ''bitmap'', pfile = ''minecraft:font/unknown.png'', pheight = None, ascent = 7,
        chars = [[0x41]] \<rparr>] \<rparr>"

section \<open>Tooltip layout (buildTooltip, in src/item-editor/index.tsx)\<close>

text \<open>
  \<open>MCText\<close>: a string, an array of texts, or an object. Of the object's fields
  \<open>buildTooltip\<close> reads \<open>text\<close>, \<open>color\<close> and \<open>extra\<close>.
\<close>

datatype MCText =
    Str string
  | Arr "MCText list"
  | Obj (obj_text: string) (obj_color: "string option") (obj_extra: "MCText list option")

text \<open>
  A \<open>PIXI.Text\<close> added to the text container, with the position it was given. Its fill
  colour has no part in the geometry and is left out. The rendered width and height of a
  run are the renderer's; they are a parameter of the model.
\<close>

record placed_text =
  run_text :: string
  position_x :: real
  position_y :: real

type_synonym text_metrics = "string \<Rightarrow> real \<times> real"

definition TOOLTIP_BORDER_RADIUS :: real where "TOOLTIP_BORDER_RADIUS = 2"
definition TOOLTIP_PADDING_OUT_X :: real where "TOOLTIP_PADDING_OUT_X = 8"
definition TOOLTIP_PADDING_OUT_Y :: real where "TOOLTIP_PADDING_OUT_Y = 8"
definition TOOLTIP_PADDING_INNER_X :: real where "TOOLTIP_PADDING_INNER_X = 8"
definition TOOLTIP_PADDING_INNER_Y :: real where "TOOLTIP_PADDING_INNER_Y = 8"

text \<open>
  The \<open>while (parts.length > 0)\<close> loop of one line: \<open>parts.shift()\<close> takes the head of
  the queue, an array pushes its elements at the back, a string or an object becomes a run
  at \<open>(currentX, currentY)\<close>, and an object pushes its \<open>extra\<close> at the back. After
  each run \<open>currentX += text.width\<close> and \<open>textHeight = Math.max(0, text.height)\<close>.
\<close>

function parts_loop ::
  "text_metrics \<Rightarrow> real \<Rightarrow> MCText list \<Rightarrow> real \<Rightarrow> real \<Rightarrow> placed_text list
     \<Rightarrow> real \<times> real \<times> placed_text list"
where
  "parts_loop m currentY [] currentX textHeight children = (currentX, textHeight, children)"
| "parts_loop m currentY (Arr tp # parts) currentX textHeight children =
     parts_loop m currentY (parts @ tp) currentX textHeight children"
| "parts_loop m currentY (Str tp # parts) currentX textHeight children =
     parts_loop m currentY parts (currentX + fst (m tp)) (max 0 (snd (m tp)))
       (children @ [\<lparr> run_text = tp, position_x = currentX, position_y = currentY \<rparr>])"
| "parts_loop m currentY (Obj t c ex # parts) currentX textHeight children =
     parts_loop m currentY (parts @ (case ex of None \<Rightarrow> [] | Some e \<Rightarrow> e))
       (currentX + fst (m t)) (max 0 (snd (m t)))
       (children @ [\<lparr> run_text = t, position_x = currentX, position_y = currentY \<rparr>])"
  by pat_completeness auto
termination
  by (relation "measure (\<lambda>(m, y, parts, cx, th, ch). size_list size parts)")
     (auto split: option.splits)

text \<open>The \<open>for (const line of lines)\<close> loop.\<close>

fun lines_loop ::
  "text_metrics \<Rightarrow> MCText list \<Rightarrow> real \<Rightarrow> real \<Rightarrow> placed_text list \<Rightarrow> real \<times> real \<times> placed_text list"
where
  "lines_loop m [] currentY maxWidth children = (currentY, maxWidth, children)"
| "lines_loop m (line # lines) currentY maxWidth children =
     (case parts_loop m currentY [line] 0 0 children of
        (currentX, textHeight, children') \<Rightarrow>
          lines_loop m lines (currentY + textHeight) (max maxWidth currentX) children')"

text \<open>
  The returned container: the filled rectangle of the panel, the rounded border, and the
  text container with its position and children.
\<close>

record tooltip =
  rect_width :: real
  rect_height :: real
  border_x :: real
  border_y :: real
  border_width :: real
  border_height :: real
  border_radius :: real
  text_container_x :: real
  text_container_y :: real
  text_children :: "placed_text list"

definition buildTooltip :: "text_metrics \<Rightarrow> MCText list \<Rightarrow> tooltip" where
  "buildTooltip m lines =
     (case lines_loop m lines 0 0 [] of
        (currentY, maxWidth, children) \<Rightarrow>
          \<lparr> rect_width = maxWidth + TOOLTIP_PADDING_OUT_X * 2 + TOOLTIP_PADDING_INNER_X * 2,
            rect_height = currentY + TOOLTIP_PADDING_OUT_Y * 2 + TOOLTIP_PADDING_INNER_Y * 2,
            border_x = TOOLTIP_PADDING_OUT_X,
            border_y = TOOLTIP_PADDING_OUT_Y,
            border_width = maxWidth + TOOLTIP_PADDING_OUT_X + TOOLTIP_PADDING_INNER_X,
            border_height = currentY + TOOLTIP_PADDING_OUT_Y + TOOLTIP_PADDING_INNER_Y,
            border_radius = TOOLTIP_BORDER_RADIUS,
            text_container_x = TOOLTIP_PADDING_OUT_X + TOOLTIP_PADDING_INNER_X,
            text_container_y = TOOLTIP_PADDING_OUT_Y + TOOLTIP_PADDING_INNER_Y,
            text_children = children \<rparr>)"

text \<open>
  Example metrics: a text of two lines is twice as tall as a text of one line.
\<close>

definition two_line_text :: string where
  "two_line_text = [CHR ''a'', CHR 0x0A, CHR ''b'']"

definition ex_metrics :: text_metrics where
  "ex_metrics s = (if s = two_line_text then (14, 58) else (14 * real (length s), 29))"

section \<open>JavaScript values\<close>

text \<open>
  The values that \<open>JSON.parse\<close> and the message channel deliver. An object is the list
  of its own properties in enumeration order.
\<close>

datatype js =
    JUndefined
  | JNull
  | JBool bool
  | JNum number
  | JStr string
  | JArr "js list"
  | JObj "(string \<times> js) list"

section \<open>JSON texts and the objects read from them\<close>

text \<open>
  A JSON text, by its syntax tree: the members of an object are in the order in which the
  text declares them, and a name may be declared more than once. Which character
  sequences are JSON texts, and with which tree, is the grammar of the language; it is
  not part of this model.
\<close>

datatype json =
    JsonNull
  | JsonBool bool
  | JsonNumber real
  | JsonString string
  | JsonArray "json list"
  | JsonObject "(string \<times> json) list"

text \<open>
  The order of the own properties of an object, which \<open>Object.values\<close> and
  \<open>JSON.stringify\<close> follow: first the keys that are array indices, ascending by value,
  then the other keys in the order of their creation. A key is an array index when it is
  the decimal numeral, without leading zeros, of a number up to \<open>2^32 - 2\<close>: it has
  digits only and printing its value gives the key back.
\<close>

definition is_digit :: "char \<Rightarrow> bool" where
  "is_digit c = (48 \<le> (of_char c :: nat) \<and> (of_char c :: nat) \<le> 57)"

definition decimal_value :: "string \<Rightarrow> nat" where
  "decimal_value s = foldl (\<lambda>a c. 10 * a + ((of_char c :: nat) - 48)) 0 s"

fun decimal :: "nat \<Rightarrow> string" where
  "decimal n = (if n < 10 then [char_of (48 + n)] else decimal (n div 10) @ [char_of (48 + n mod 10)])"

declare decimal.simps [simp del]

definition array_index :: "string \<Rightarrow> nat option" where
  "array_index s =
     (if list_all is_digit s \<and> decimal (decimal_value s) = s \<and> decimal_value s \<le> 4294967294
      then Some (decimal_value s) else None)"

text \<open>\<open>precedes k k'\<close>: a new key \<open>k\<close> is enumerated before the existing key \<open>k'\<close>.\<close>

definition precedes :: "string \<Rightarrow> string \<Rightarrow> bool" where
  "precedes k k' =
     (case array_index k of
        None \<Rightarrow> False
      | Some n \<Rightarrow> (case array_index k' of None \<Rightarrow> True | Some n' \<Rightarrow> n < n'))"

text \<open>
  Defining the property \<open>k\<close> of an object: an existing property keeps its place and gets
  the new value, a new one is entered at its place in the order.
\<close>

fun put :: "string \<Rightarrow> 'a \<Rightarrow> (string \<times> 'a) list \<Rightarrow> (string \<times> 'a) list" where
  "put k v [] = [(k, v)]"
| "put k v ((k', v') # fs) =
     (if k = k' then (k, v) # fs
      else if precedes k k' then (k, v) # (k', v') # fs
      else (k', v') # put k v fs)"

fun put_all :: "(string \<times> 'a) list \<Rightarrow> (string \<times> 'a) list \<Rightarrow> (string \<times> 'a) list" where
  "put_all [] fs = fs"
| "put_all ((k, v) # ms) fs = put_all ms (put k v fs)"

definition object_of :: "(string \<times> 'a) list \<Rightarrow> (string \<times> 'a) list" where
  "object_of ms = put_all ms []"

text \<open>
  A list is the property list of an object when no two entries share a key and no entry
  stands behind one that it precedes.
\<close>

definition object_list :: "(string \<times> 'a) list \<Rightarrow> bool" where
  "object_list fs = sorted_wrt (\<lambda>a b. fst a \<noteq> fst b \<and> \<not> precedes (fst b) (fst a)) fs"

text \<open>
  \<open>JSON.parse\<close> on the tree of a text: the members of an object are defined one after
  the other, in the order of the text.
\<close>

fun JSON_value :: "json \<Rightarrow> js"
  and read_elements :: "json list \<Rightarrow> js list"
  and read_members :: "(string \<times> json) list \<Rightarrow> (string \<times> js) list"
where
  "JSON_value JsonNull = JNull"
| "JSON_value (JsonBool b) = JBool b"
| "JSON_value (JsonNumber r) = JNum (Finite r)"
| "JSON_value (JsonString s) = JStr s"
| "JSON_value (JsonArray js) = JArr (read_elements js)"
| "JSON_value (JsonObject ms) = JObj (object_of (read_members ms))"
| "read_elements [] = []"
| "read_elements (j # js) = JSON_value j # read_elements js"
| "read_members [] = []"
| "read_members ((k, j) # ms) = (k, JSON_value j) # read_members ms"

section \<open>Enchantment detection (isItemEnchanted, unnamed/part_000)\<close>

text \<open>
  The tags of the structured-data library, as far as \<open>isItemEnchanted\<close> tells them
  apart: a \<open>ByteTag\<close> with its value, a \<open>CompoundTag\<close> with its list of entries, and any
  other tag. The library's parser \<open>NBT.parseSNBT\<close> is a parameter of the model: it
  returns a tag or throws.
\<close>

datatype Tag =
    ByteTag int
  | CompoundTag "(string \<times> Tag) list"
  | OtherTag

type_synonym snbt_parser = "string \<Rightarrow> error + Tag"

definition tryParseSNBT :: "snbt_parser \<Rightarrow> string \<Rightarrow> Tag option" where
  "tryParseSNBT parseSNBT snbt = (case parseSNBT snbt of Inl e \<Rightarrow> None | Inr t \<Rightarrow> Some t)"

text \<open>\<open>s.replaceAll("\n", "")\<close>.\<close>

definition remove_newlines :: "string \<Rightarrow> string" where
  "remove_newlines s = filter (\<lambda>c. c \<noteq> CHR 0x0A) s"

definition isItemEnchanted :: "snbt_parser \<Rightarrow> Item \<Rightarrow> bool" where
  "isItemEnchanted parseSNBT item =
     (case map_of (components item) ''minecraft:enchantment_glint_override'' of
        Some s \<Rightarrow>
          (case tryParseSNBT parseSNBT (remove_newlines s) of
             Some (ByteTag v) \<Rightarrow> v = 1
           | _ \<Rightarrow> False)
      | None \<Rightarrow>
          (case map_of (components item) ''minecraft:enchantments'' of
             Some s \<Rightarrow>
               (case tryParseSNBT parseSNBT (remove_newlines s) of
                  Some (CompoundTag l) \<Rightarrow> length l > 0
                | _ \<Rightarrow> False)
           | None \<Rightarrow> False))"

section \<open>Resource resolver (src/item-editor.ts)\<close>

text \<open>
  The host the resolver runs on: the platform name and the \<open>AppData\<close> variable; the
  file system, which for a path holds nothing (\<open>None\<close>) or a file that the process may or
  may not read and may or may not write; \<open>fs.readFile\<close>; the library function
  \<open>path.join\<close>; and the grammar of JSON, which gives the tree of a text or \<open>None\<close> for
  a text on which \<open>JSON.parse\<close> throws a SyntaxError.
\<close>

record host =
  platform :: string
  AppData :: string
  accessible :: "string \<Rightarrow> (bool \<times> bool) option"
  readFile :: "string \<Rightarrow> error + string"
  path_join :: "string list \<Rightarrow> string"
  JSON_text :: "string \<Rightarrow> json option"

definition JSON_parse :: "host \<Rightarrow> string \<Rightarrow> js option" where
  "JSON_parse h s = (case JSON_text h s of None \<Rightarrow> None | Some t \<Rightarrow> Some (JSON_value t))"

definition getDotMinecraft :: "host \<Rightarrow> error + string" where
  "getDotMinecraft h =
     (if platform h = ''win32'' then Inr (path_join h [AppData h, ''.minecraft''])
      else if platform h = ''darwin'' then Inr ''~/Library/Application Support/minecraft''
      else if platform h = ''linux'' then Inr ''~/.minecraft''
      else Inl LocateError)"

definition getUnpackedVersionDirectory :: "host \<Rightarrow> string \<Rightarrow> error + string" where
  "getUnpackedVersionDirectory h version =
     (case getDotMinecraft h of
        Inl e \<Rightarrow> Inl e
      | Inr d \<Rightarrow> Inr (path_join h [d, ''.basalt'', ''unpacked'', version]))"

text \<open>
  \<open>exists\<close> is \<open>fs.access(path, R_OK | W_OK)\<close>: true when there is a file that the
  process may read and write.
\<close>

definition exists :: "host \<Rightarrow> string \<Rightarrow> bool" where
  "exists h p = (accessible h p = Some (True, True))"

text \<open>\<open>s.substring(s.indexOf(c) + 1)\<close>: the text after the first \<open>c\<close>, or all of \<open>s\<close>
  when \<open>c\<close> does not occur.\<close>

definition substring_after :: "char \<Rightarrow> string \<Rightarrow> string" where
  "substring_after c s = (if c \<in> set s then tl (dropWhile (\<lambda>x. x \<noteq> c) s) else s)"

definition stripMinecraftNamespace :: "string \<Rightarrow> string" where
  "stripMinecraftNamespace resource = substring_after CHR ''/'' resource"

text \<open>
  \<open>blockData.textures\<close>: reading a property of \<open>null\<close> throws; an array or a primitive
  has no such property.
\<close>

definition blockData_textures :: "js \<Rightarrow> error + js" where
  "blockData_textures blockData =
     (case blockData of
        JNull \<Rightarrow> Inl TypeError
      | JUndefined \<Rightarrow> Inl TypeError
      | JObj fs \<Rightarrow> (case map_of fs ''textures'' of None \<Rightarrow> Inr JUndefined | Some v \<Rightarrow> Inr v)
      | _ \<Rightarrow> Inr JUndefined)"

text \<open>
  The choice of the texture: \<open>"side" in textures\<close> throws unless \<open>textures\<close> is an object
  or an array; otherwise the \<open>side\<close> property when there is one, else the first of
  \<open>Object.values(textures)\<close>, which is \<open>undefined\<close> when there is none.
\<close>

definition select_texture :: "js \<Rightarrow> error + js" where
  "select_texture textures =
     (case textures of
        JObj ts \<Rightarrow>
          (case map_of ts ''side'' of
             Some v \<Rightarrow> Inr v
           | None \<Rightarrow> (case ts of [] \<Rightarrow> Inr JUndefined | (k, v) # rest \<Rightarrow> Inr v))
      | JArr vs \<Rightarrow> (case vs of [] \<Rightarrow> Inr JUndefined | v # rest \<Rightarrow> Inr v)
      | _ \<Rightarrow> Inl TypeError)"

text \<open>\<open>stripMinecraftNamespace(texture)\<close> calls \<open>substring\<close>, which only a string has.\<close>

definition texture_name :: "js \<Rightarrow> error + string" where
  "texture_name texture =
     (case texture of JStr s \<Rightarrow> Inr (stripMinecraftNamespace s) | _ \<Rightarrow> Inl TypeError)"

definition model_texture :: "js \<Rightarrow> error + string" where
  "model_texture blockData =
     (case blockData_textures blockData of
        Inl e \<Rightarrow> Inl e
      | Inr textures \<Rightarrow>
          (case select_texture textures of
             Inl e \<Rightarrow> Inl e
           | Inr texture \<Rightarrow> texture_name texture))"

definition getUnpackedItemResource :: "host \<Rightarrow> string \<Rightarrow> string \<Rightarrow> error + string" where
  "getUnpackedItemResource h version item_id =
     (let name = substring_after CHR '':'' item_id in
      case getUnpackedVersionDirectory h version of
        Inl e \<Rightarrow> Inl e
      | Inr unpackedVersion \<Rightarrow>
          (let itemPath = path_join h [unpackedVersion, ''textures'', ''item'', name @ ''.png''] in
           if exists h itemPath then Inr itemPath
           else
             (case readFile h (path_join h [unpackedVersion, ''models'', ''block'', name @ ''.json'']) of
                Inl e \<Rightarrow> Inl e
              | Inr blockModel \<Rightarrow>
                  (case JSON_parse h blockModel of
                     None \<Rightarrow> Inl SyntaxError
                   | Some blockData \<Rightarrow>
                       (case model_texture blockData of
                          Inl e \<Rightarrow> Inl e
                        | Inr t \<Rightarrow> Inr (path_join h [unpackedVersion, ''textures'', ''block'', t @ ''.png'']))))))"

definition getUnpackedResource :: "host \<Rightarrow> string \<Rightarrow> string \<Rightarrow> error + string" where
  "getUnpackedResource h version resource =
     (case getUnpackedVersionDirectory h version of
        Inl e \<Rightarrow> Inl e
      | Inr unpackedVersion \<Rightarrow> Inr (path_join h [unpackedVersion, resource]))"

text \<open>
  An example host: Linux, \<open>path.join\<close> on plain segments, the sprite of \<open>apple\<close>, a
  sprite of \<open>lamp\<close> that may be read but not written, and the block models of \<open>stone\<close>,
  \<open>dirt\<close>, \<open>sand\<close>, \<open>torch\<close>, \<open>lamp\<close> and \<open>glass\<close> with the trees of their texts.
\<close>

fun join_segments :: "string list \<Rightarrow> string" where
  "join_segments [] = ''.''"
| "join_segments [p] = p"
| "join_segments (p # q # ps) = p @ ''/'' @ join_segments (q # ps)"

definition quoted :: "string \<Rightarrow> string" where
  "quoted s = [CHR 0x22] @ s @ [CHR 0x22]"

definition stone_json :: string where
  "stone_json = ''{'' @ quoted ''textures'' @ '':{'' @ quoted ''side'' @ '':'' @ quoted ''block/foo'' @ ''}}''"

definition dirt_json :: string where
  "dirt_json = ''{'' @ quoted ''textures'' @ '':{'' @ quoted ''top'' @ '':'' @ quoted ''minecraft:block/dirt_top''
     @ '','' @ quoted ''all'' @ '':'' @ quoted ''block/dirt'' @ ''}}''"

definition sand_json :: string where
  "sand_json = ''{}''"

definition torch_json :: string where
  "torch_json = ''{'' @ quoted ''textures'' @ '':{'' @ quoted ''particle'' @ '':'' @ quoted ''block/particle''
     @ '','' @ quoted ''0'' @ '':'' @ quoted ''block/zero'' @ ''}}''"

definition lamp_json :: string where
  "lamp_json = ''{'' @ quoted ''textures'' @ '':{'' @ quoted ''side'' @ '':'' @ quoted ''block/lamp_side'' @ ''}}''"

definition glass_json :: string where
  "glass_json = ''{'' @ quoted ''textures'' @ '':{'' @ quoted ''side'' @ '':'' @ quoted ''minecraft:glass'' @ ''}}''"

definition ex_host :: host where
  "ex_host =
     \<lparr> platform = ''linux'', AppData = [],
       accessible = (\<lambda>p.
         if p = ''~/.minecraft/.basalt/unpacked/1.21/textures/item/apple.png'' then Some (True, True)
         else if p = ''~/.minecraft/.basalt/unpacked/1.21/textures/item/lamp.png'' then Some (True, False)
         else None),
       readFile = (\<lambda>p.
         if p = ''~/.minecraft/.basalt/unpacked/1.21/models/block/stone.json'' then Inr stone_json
         else if p = ''~/.minecraft/.basalt/unpacked/1.21/models/block/dirt.json'' then Inr dirt_json
         else if p = ''~/.minecraft/.basalt/unpacked/1.21/models/block/sand.json'' then Inr sand_json
         else if p = ''~/.minecraft/.basalt/unpacked/1.21/models/block/torch.json'' then Inr torch_json
         else if p = ''~/.minecraft/.basalt/unpacked/1.21/models/block/lamp.json'' then Inr lamp_json
         else if p = ''~/.minecraft/.basalt/unpacked/1.21/models/block/glass.json'' then Inr glass_json
         else Inl (FsError ''ENOENT'')),
       path_join = join_segments,
       JSON_text = (\<lambda>s.
         if s = stone_json then
           Some (JsonObject [(''textures'', JsonObject [(''side'', JsonString ''block/foo'')])])
         else if s = dirt_json then
           Some (JsonObject [(''textures'', JsonObject [(''top'', JsonString ''minecraft:block/dirt_top''),
                                                        (''all'', JsonString ''block/dirt'')])])
         else if s = sand_json then Some (JsonObject [])
         else if s = torch_json then
           Some (JsonObject [(''textures'', JsonObject [(''particle'', JsonString ''block/particle''),
                                                        (''0'', JsonString ''block/zero'')])])
         else if s = lamp_json then
           Some (JsonObject [(''textures'', JsonObject [(''side'', JsonString ''block/lamp_side'')])])
         else if s = glass_json then
           Some (JsonObject [(''textures'', JsonObject [(''side'', JsonString ''minecraft:glass'')])])
         else None) \<rparr>"

text \<open>
  An example parser for the witnesses: the structured-data texts it knows, and a
  SyntaxError for every other text.
\<close>

definition ex_parseSNBT :: snbt_parser where
  "ex_parseSNBT s =
     (if s = ''1b'' then Inr (ByteTag 1)
      else if s = ''0b'' then Inr (ByteTag 0)
      else if s = ''{}'' then Inr (CompoundTag [])
      else if s = ''{sharpness:3}'' then Inr (CompoundTag [(''sharpness'', OtherTag)])
      else Inl SyntaxError)"

definition ex_item :: "(string \<times> string) list \<Rightarrow> Item" where
  "ex_item cs = \<lparr> minecraftVersion = ''1.21'', id = ''minecraft:stone'', count = Finite 1, components = cs \<rparr>"

section \<open>Version asset manager (src/item-editor.ts)\<close>

text \<open>
  \<open>ensureUnpackedVersion\<close> and \<open>unpackVersion\<close> are asynchronous functions on one
  thread: each runs until its next \<open>await\<close>, and the host decides when the awaited
  operation ends. The model is a machine whose events are those decisions, on a platform
  where \<open>getDotMinecraft\<close> resolves.

  A task of \<open>unpackVersion\<close> is suspended at one of its awaits: the three \<open>fs.mkdir\<close>
  calls, the archive extraction, \<open>getDatagenRunCommand\<close>, and the wait for the \<open>exit\<close>
  event of the child process. When \<open>getDatagenRunCommand\<close> rejects, the rejection is that
  of the asynchronous executor function and nobody calls \<open>res\<close> or \<open>rej\<close>: the task stays
  pending for ever (\<open>Stuck\<close>).
\<close>

datatype phase = MkdirUnpacked | MkdirDatagen | MkdirFonts | Extract | RunCommand | ChildProcess | Stuck

datatype status = Pending phase | Fulfilled | Rejected error

text \<open>
  A call of \<open>ensureUnpackedVersion\<close>: waiting for the file system's answer to
  \<open>exists(unpackedPath)\<close>, holding the answer until it is resumed, returned at
  \<open>if (await exists(unpackedPath)) return\<close>, or returned with the task of the given index.
\<close>

datatype call = Checking string | Checked string bool | ReturnedVoid | ReturnedTask nat

record manager =
  unpacked :: "string set"
  runningUnpackTasks :: "string \<rightharpoonup> nat"
  tasks :: "(string \<times> status) list"
  calls :: "call list"

text \<open>
  The events: \<open>ensureUnpackedVersion(version)\<close> is called and starts its access check;
  the file system answers the access check of a call; a call resumes after its await;
  the pending file operation of a task ends, with an error or without; the child process
  of a task emits \<open>exit\<close> with its code.
\<close>

datatype event =
    Call string
  | Access nat
  | Resume nat
  | Io nat "error option"
  | Exit nat int

text \<open>
  A task settles: its promise is fulfilled or rejected, and the \<open>finally\<close> callback
  deletes the entry of its version from \<open>runningUnpackTasks\<close>.
\<close>

definition settle :: "nat \<Rightarrow> string \<Rightarrow> status \<Rightarrow> manager \<Rightarrow> manager" where
  "settle t v st s =
     s\<lparr> tasks := (tasks s)[t := (v, st)],
        runningUnpackTasks := (runningUnpackTasks s)(v := None) \<rparr>"

text \<open>The pending operation of a task ends without an error.\<close>

definition io_ok :: "nat \<Rightarrow> string \<Rightarrow> phase \<Rightarrow> manager \<Rightarrow> manager" where
  "io_ok t v ph s =
     (case ph of
        MkdirUnpacked \<Rightarrow> s\<lparr> unpacked := insert v (unpacked s), tasks := (tasks s)[t := (v, Pending MkdirDatagen)] \<rparr>
      | MkdirDatagen \<Rightarrow> s\<lparr> tasks := (tasks s)[t := (v, Pending MkdirFonts)] \<rparr>
      | MkdirFonts \<Rightarrow> s\<lparr> tasks := (tasks s)[t := (v, Pending Extract)] \<rparr>
      | Extract \<Rightarrow> s\<lparr> tasks := (tasks s)[t := (v, Pending RunCommand)] \<rparr>
      | RunCommand \<Rightarrow> s\<lparr> tasks := (tasks s)[t := (v, Pending ChildProcess)] \<rparr>
      | ChildProcess \<Rightarrow> s
      | Stuck \<Rightarrow> s)"

text \<open>The pending operation of a task throws.\<close>

definition io_error :: "nat \<Rightarrow> string \<Rightarrow> phase \<Rightarrow> error \<Rightarrow> manager \<Rightarrow> manager" where
  "io_error t v ph e s =
     (case ph of
        MkdirUnpacked \<Rightarrow> settle t v (Rejected e) s
      | MkdirDatagen \<Rightarrow> settle t v (Rejected e) s
      | MkdirFonts \<Rightarrow> settle t v (Rejected e) s
      | Extract \<Rightarrow> settle t v (Rejected e) s
      | RunCommand \<Rightarrow> s\<lparr> tasks := (tasks s)[t := (v, Pending Stuck)] \<rparr>
      | ChildProcess \<Rightarrow> s
      | Stuck \<Rightarrow> s)"

text \<open>
  The continuation of \<open>ensureUnpackedVersion\<close> after the existence check, which runs
  without a further await: return when the directory was found, return the running task
  of the version when there is one, and otherwise start \<open>unpackVersion\<close>, enter its
  promise in \<open>runningUnpackTasks\<close> and return it.
\<close>

definition resume :: "nat \<Rightarrow> string \<Rightarrow> bool \<Rightarrow> manager \<Rightarrow> manager" where
  "resume n v found s =
     (if found then s\<lparr> calls := (calls s)[n := ReturnedVoid] \<rparr>
      else
        (case runningUnpackTasks s v of
           Some t \<Rightarrow> s\<lparr> calls := (calls s)[n := ReturnedTask t] \<rparr>
         | None \<Rightarrow>
             s\<lparr> tasks := tasks s @ [(v, Pending MkdirUnpacked)],
                runningUnpackTasks := (runningUnpackTasks s)(v \<mapsto> length (tasks s)),
                calls := (calls s)[n := ReturnedTask (length (tasks s))] \<rparr>))"

fun step :: "event \<Rightarrow> manager \<Rightarrow> manager" where
  "step (Call v) s = s\<lparr> calls := calls s @ [Checking v] \<rparr>"
| "step (Access n) s =
     (if n < length (calls s) then
        (case calls s ! n of
           Checking v \<Rightarrow> s\<lparr> calls := (calls s)[n := Checked v (v \<in> unpacked s)] \<rparr>
         | _ \<Rightarrow> s)
      else s)"
| "step (Resume n) s =
     (if n < length (calls s) then
        (case calls s ! n of
           Checked v found \<Rightarrow> resume n v found s
         | _ \<Rightarrow> s)
      else s)"
| "step (Io t r) s =
     (if t < length (tasks s) then
        (case tasks s ! t of
           (v, Pending ph) \<Rightarrow> (case r of None \<Rightarrow> io_ok t v ph s | Some e \<Rightarrow> io_error t v ph e s)
         | _ \<Rightarrow> s)
      else s)"
| "step (Exit t code) s =
     (if t < length (tasks s) then
        (case tasks s ! t of
           (v, Pending ChildProcess) \<Rightarrow> settle t v Fulfilled s
         | _ \<Rightarrow> s)
      else s)"

fun run :: "event list \<Rightarrow> manager \<Rightarrow> manager" where
  "run [] s = s"
| "run (e # es) s = run es (step e s)"

definition init :: manager where
  "init = \<lparr> unpacked = {}, runningUnpackTasks = Map.empty, tasks = [], calls = [] \<rparr>"

text \<open>What the promise returned to a call has settled to, if it has.\<close>

definition call_result :: "manager \<Rightarrow> nat \<Rightarrow> status option" where
  "call_result s n =
     (if n < length (calls s) then
        (case calls s ! n of
           ReturnedVoid \<Rightarrow> Some Fulfilled
         | ReturnedTask t \<Rightarrow>
             (if t < length (tasks s) then
                (case snd (tasks s ! t) of Pending ph \<Rightarrow> None | st \<Rightarrow> Some st)
              else None)
         | _ \<Rightarrow> None)
      else None)"

text \<open>
  Two calls share task 0. In the first state the task waits for its child process, which
  exits with code 1; in the second it is extracting the archive, which fails.
\<close>

definition at_child_process :: manager where
  "at_child_process =
     run [Call ''1.21'', Call ''1.21'', Access 0, Access 1, Resume 0, Resume 1,
          Io 0 None, Io 0 None, Io 0 None, Io 0 None, Io 0 None] init"

definition at_extract :: manager where
  "at_extract =
     run [Call ''1.21'', Call ''1.21'', Access 0, Access 1, Resume 0, Resume 1,
          Io 0 None, Io 0 None, Io 0 None] init"

section \<open>Message shapes (src/shared/proto.ts)\<close>

text \<open>
  A schema of the validation library is a function that returns the parsed data, or
  \<open>None\<close> where \<open>safeParse\<close> reports a failure and \<open>parse\<close> throws. An object schema
  reads the properties it declares (a missing property reads as \<open>undefined\<close>) and drops
  the others.

  The sources do not say which major version of the library is installed, and the two
  differ on the schemas used here. \<open>z.number()\<close> rejects \<open>NaN\<close> in both; version 3
  accepts the infinite numbers and version 4 rejects them. \<open>z.record\<close> leaves the key
  \<open>__proto__\<close> out of its result in both; version 3 validates its value first and version 4
  skips the entry unvalidated. The version is a parameter of the schemas.
\<close>

datatype zod = Zod3 | Zod4

definition get_property :: "(string \<times> js) list \<Rightarrow> string \<Rightarrow> js" where
  "get_property fs k = (case map_of fs k of None \<Rightarrow> JUndefined | Some v \<Rightarrow> v)"

definition z_string :: "js \<Rightarrow> string option" where
  "z_string v = (case v of JStr s \<Rightarrow> Some s | _ \<Rightarrow> None)"

definition z_number :: "zod \<Rightarrow> js \<Rightarrow> number option" where
  "z_number z v =
     (case v of
        JNum (Finite r) \<Rightarrow> Some (Finite r)
      | JNum PosInfinity \<Rightarrow> (if z = Zod3 then Some PosInfinity else None)
      | JNum NegInfinity \<Rightarrow> (if z = Zod3 then Some NegInfinity else None)
      | _ \<Rightarrow> None)"

definition z_literal :: "string \<Rightarrow> js \<Rightarrow> bool" where
  "z_literal l v = (v = JStr l)"

fun strings_of :: "js list \<Rightarrow> string list option" where
  "strings_of [] = Some []"
| "strings_of (v # vs) =
     (case z_string v of
        None \<Rightarrow> None
      | Some s \<Rightarrow> (case strings_of vs of None \<Rightarrow> None | Some ss \<Rightarrow> Some (s # ss)))"

definition z_array_string :: "js \<Rightarrow> string list option" where
  "z_array_string v = (case v of JArr vs \<Rightarrow> strings_of vs | _ \<Rightarrow> None)"

fun string_entries :: "zod \<Rightarrow> (string \<times> js) list \<Rightarrow> (string \<times> string) list option" where
  "string_entries z [] = Some []"
| "string_entries z ((k, v) # fs) =
     (if z = Zod4 \<and> k = ''__proto__'' then string_entries z fs
      else
        (case z_string v of
           None \<Rightarrow> None
         | Some s \<Rightarrow>
             (case string_entries z fs of
                None \<Rightarrow> None
              | Some es \<Rightarrow> Some (if k = ''__proto__'' then es else (k, s) # es))))"

definition z_record_string_string :: "zod \<Rightarrow> js \<Rightarrow> (string \<times> string) list option" where
  "z_record_string_string z v = (case v of JObj fs \<Rightarrow> string_entries z fs | _ \<Rightarrow> None)"

text \<open>The \<open>Item\<close> schema.\<close>

definition Item_schema :: "zod \<Rightarrow> js \<Rightarrow> Item option" where
  "Item_schema z v =
     (case v of
        JObj fs \<Rightarrow>
          (case z_string (get_property fs ''minecraftVersion'') of
             None \<Rightarrow> None
           | Some mv \<Rightarrow>
               (case z_string (get_property fs ''id'') of
                  None \<Rightarrow> None
                | Some i \<Rightarrow>
                    (case z_number z (get_property fs ''count'') of
                       None \<Rightarrow> None
                     | Some c \<Rightarrow>
                         (case z_record_string_string z (get_property fs ''components'') of
                            None \<Rightarrow> None
                          | Some cs \<Rightarrow>
                              Some \<lparr> minecraftVersion = mv, id = i, count = c, components = cs \<rparr>))))
      | _ \<Rightarrow> None)"

text \<open>\<open>Item.nullable()\<close>: the outer option is the validation, the inner one the null.\<close>

definition Item_nullable :: "zod \<Rightarrow> js \<Rightarrow> Item option option" where
  "Item_nullable z v =
     (if v = JNull then Some None
      else (case Item_schema z v of None \<Rightarrow> None | Some it \<Rightarrow> Some (Some it)))"

datatype message =
    GetItemTextureMessage Item
  | UpdateItemMessage "Item option"
  | UpdateMinecraftVersionsMessage "string list"
  | ReadyMessage
  | ItemTextureResponseMessage Item string
  | GetAnyResourceMessage string string
  | AnyResourceResponseMessage string string string
  | UpdateItemComponentsMessage "string list"

type_synonym schema = "js \<Rightarrow> message option"

definition GetItemTextureMessage_schema :: "zod \<Rightarrow> schema" where
  "GetItemTextureMessage_schema z v =
     (case v of
        JObj fs \<Rightarrow>
          (if z_literal ''get-item-texture'' (get_property fs ''type'') then
             (case Item_schema z (get_property fs ''item'') of
                None \<Rightarrow> None
              | Some it \<Rightarrow> Some (GetItemTextureMessage it))
           else None)
      | _ \<Rightarrow> None)"

definition UpdateItemMessage_schema :: "zod \<Rightarrow> schema" where
  "UpdateItemMessage_schema z v =
     (case v of
        JObj fs \<Rightarrow>
          (if z_literal ''update-item'' (get_property fs ''type'') then
             (case Item_nullable z (get_property fs ''item'') of
                None \<Rightarrow> None
              | Some it \<Rightarrow> Some (UpdateItemMessage it))
           else None)
      | _ \<Rightarrow> None)"

definition UpdateMinecraftVersionsMessage_schema :: schema where
  "UpdateMinecraftVersionsMessage_schema v =
     (case v of
        JObj fs \<Rightarrow>
          (if z_literal ''update-versions'' (get_property fs ''type'') then
             (case z_array_string (get_property fs ''versions'') of
                None \<Rightarrow> None
              | Some vs \<Rightarrow> Some (UpdateMinecraftVersionsMessage vs))
           else None)
      | _ \<Rightarrow> None)"

definition ReadyMessage_schema :: schema where
  "ReadyMessage_schema v =
     (case v of
        JObj fs \<Rightarrow> (if z_literal ''ready'' (get_property fs ''type'') then Some ReadyMessage else None)
      | _ \<Rightarrow> None)"

definition ItemTextureResponseMessage_schema :: "zod \<Rightarrow> schema" where
  "ItemTextureResponseMessage_schema z v =
     (case v of
        JObj fs \<Rightarrow>
          (if z_literal ''item-texture'' (get_property fs ''type'') then
             (case Item_schema z (get_property fs ''item'') of
                None \<Rightarrow> None
              | Some it \<Rightarrow>
                  (case z_string (get_property fs ''texture'') of
                     None \<Rightarrow> None
                   | Some t \<Rightarrow> Some (ItemTextureResponseMessage it t)))
           else None)
      | _ \<Rightarrow> None)"

definition GetAnyResourceMessage_schema :: schema where
  "GetAnyResourceMessage_schema v =
     (case v of
        JObj fs \<Rightarrow>
          (if z_literal ''get-resource'' (get_property fs ''type'') then
             (case z_string (get_property fs ''version'') of
                None \<Rightarrow> None
              | Some ver \<Rightarrow>
                  (case z_string (get_property fs ''resource'') of
                     None \<Rightarrow> None
                   | Some r \<Rightarrow> Some (GetAnyResourceMessage ver r)))
           else None)
      | _ \<Rightarrow> None)"

definition AnyResourceResponseMessage_schema :: schema where
  "AnyResourceResponseMessage_schema v =
     (case v of
        JObj fs \<Rightarrow>
          (if z_literal ''resource'' (get_property fs ''type'') then
             (case z_string (get_property fs ''version'') of
                None \<Rightarrow> None
              | Some ver \<Rightarrow>
                  (case z_string (get_property fs ''resource'') of
                     None \<Rightarrow> None
                   | Some r \<Rightarrow>
                       (case z_string (get_property fs ''texture'') of
                          None \<Rightarrow> None
                        | Some t \<Rightarrow> Some (AnyResourceResponseMessage ver r t))))
           else None)
      | _ \<Rightarrow> None)"

definition UpdateItemComponentsMessage_schema :: schema where
  "UpdateItemComponentsMessage_schema v =
     (case v of
        JObj fs \<Rightarrow>
          (if z_literal ''update-item-components'' (get_property fs ''type'') then
             (case z_array_string (get_property fs ''components'') of
                None \<Rightarrow> None
              | Some cs \<Rightarrow> Some (UpdateItemComponentsMessage cs))
           else None)
      | _ \<Rightarrow> None)"

text \<open>\<open>a.or(b)\<close>: the first schema that accepts the value.\<close>

definition or_schema :: "schema \<Rightarrow> schema \<Rightarrow> schema" where
  "or_schema a b v = (case a v of Some m \<Rightarrow> Some m | None \<Rightarrow> b v)"

definition ServerMessages :: "zod \<Rightarrow> schema" where
  "ServerMessages z =
     or_schema (or_schema (or_schema (or_schema (ItemTextureResponseMessage_schema z) (UpdateItemMessage_schema z))
       UpdateMinecraftVersionsMessage_schema) AnyResourceResponseMessage_schema)
       UpdateItemComponentsMessage_schema"

definition ClientMessages :: "zod \<Rightarrow> schema" where
  "ClientMessages z =
     or_schema (or_schema (or_schema (GetItemTextureMessage_schema z) (UpdateItemMessage_schema z))
       ReadyMessage_schema) GetAnyResourceMessage_schema"

section \<open>The host's message handler (src/item-editor.ts)\<close>

record document =
  doc_item :: "Item option"
  doc_hash :: "string option"

text \<open>
  \<open>ItemEditorDocument.write\<close>; the md5 digest of \<open>hashItem\<close> is a parameter. The result
  says whether the change event was fired.
\<close>

definition document_write :: "(Item \<Rightarrow> string) \<Rightarrow> document \<Rightarrow> Item \<Rightarrow> document \<times> bool" where
  "document_write hashItem d it =
     (let newHash = hashItem it in
      if doc_hash d = None \<or> doc_hash d \<noteq> Some newHash
      then (\<lparr> doc_item = Some it, doc_hash = Some newHash \<rparr>, True)
      else (d, False))"

text \<open>
  What the handler awaits besides the resolver: the list of installed versions, the
  unpacking of a version, the base64 read of a file, and the list of item components of a
  version; each returns or rejects. \<open>versions_at_open\<close> is the list that
  \<open>resolveCustomEditor\<close> read before it installed the handler.
\<close>

record server = host +
  getMinecraftVersions :: "error + string list"
  ensureUnpackedVersion :: "string \<Rightarrow> error + unit"
  readFile_base64 :: "string \<Rightarrow> error + string"
  getItemComponents :: "string \<Rightarrow> error + string list"
  hashItem :: "Item \<Rightarrow> string"
  versions_at_open :: "string list"

text \<open>
  The outcome of one run of the handler: the document, the messages posted to the
  webview, the number of change events fired, and the error if the handler's promise
  was rejected.
\<close>

record outcome =
  doc :: document
  posted :: "message list"
  fired :: nat
  rejected :: "error option"

definition unchanged :: "document \<Rightarrow> outcome" where
  "unchanged d = \<lparr> doc = d, posted = [], fired = 0, rejected = None \<rparr>"

definition on_get_item_texture :: "server \<Rightarrow> document \<Rightarrow> Item \<Rightarrow> outcome" where
  "on_get_item_texture e d parsedItem =
     (case getMinecraftVersions e of
        Inl err \<Rightarrow> (unchanged d)\<lparr> rejected := Some err \<rparr>
      | Inr versions \<Rightarrow>
          if minecraftVersion parsedItem \<notin> set versions then unchanged d
          else
            (case ensureUnpackedVersion e (minecraftVersion parsedItem) of
               Inl err \<Rightarrow> (unchanged d)\<lparr> rejected := Some err \<rparr>
             | Inr u \<Rightarrow>
                 (case getUnpackedItemResource (host.truncate e) (minecraftVersion parsedItem) (id parsedItem) of
                    Inl err \<Rightarrow> (unchanged d)\<lparr> rejected := Some err \<rparr>
                  | Inr path \<Rightarrow>
                      (case readFile_base64 e path of
                         Inl err \<Rightarrow> (unchanged d)\<lparr> rejected := Some err \<rparr>
                       | Inr content \<Rightarrow>
                           (unchanged d)\<lparr> posted := [ItemTextureResponseMessage parsedItem content] \<rparr>))))"

definition on_get_resource :: "server \<Rightarrow> document \<Rightarrow> string \<Rightarrow> string \<Rightarrow> outcome" where
  "on_get_resource e d version resource =
     (case getMinecraftVersions e of
        Inl err \<Rightarrow> (unchanged d)\<lparr> rejected := Some err \<rparr>
      | Inr versions \<Rightarrow>
          if version \<notin> set versions then unchanged d
          else
            (case ensureUnpackedVersion e version of
               Inl err \<Rightarrow> (unchanged d)\<lparr> rejected := Some err \<rparr>
             | Inr u \<Rightarrow>
                 (case getUnpackedResource (host.truncate e) version resource of
                    Inl err \<Rightarrow> (unchanged d)\<lparr> rejected := Some err \<rparr>
                  | Inr path \<Rightarrow>
                      (case readFile_base64 e path of
                         Inl err \<Rightarrow> (unchanged d)\<lparr> rejected := Some err \<rparr>
                       | Inr content \<Rightarrow>
                           (unchanged d)\<lparr> posted := [AnyResourceResponseMessage version resource content] \<rparr>))))"

definition on_update_item :: "server \<Rightarrow> document \<Rightarrow> Item option \<Rightarrow> outcome" where
  "on_update_item e d parsed_item =
     (case parsed_item of
        None \<Rightarrow> unchanged d
      | Some it \<Rightarrow>
          (case document_write (hashItem e) d it of
             (d', changed) \<Rightarrow>
               (case getItemComponents e (minecraftVersion it) of
                  Inl err \<Rightarrow> \<lparr> doc = d', posted = [], fired = (if changed then 1 else 0), rejected = Some err \<rparr>
                | Inr cs \<Rightarrow>
                    \<lparr> doc = d', posted = [UpdateItemComponentsMessage cs],
                      fired = (if changed then 1 else 0), rejected = None \<rparr>)))"

definition on_ready :: "server \<Rightarrow> document \<Rightarrow> outcome" where
  "on_ready e d =
     (let first = [UpdateItemMessage (doc_item d), UpdateMinecraftVersionsMessage (versions_at_open e)] in
      case doc_item d of
        None \<Rightarrow> (unchanged d)\<lparr> posted := first \<rparr>
      | Some it \<Rightarrow>
          if minecraftVersion it = [] then (unchanged d)\<lparr> posted := first \<rparr>
          else
            (case getItemComponents e (minecraftVersion it) of
               Inl err \<Rightarrow> (unchanged d)\<lparr> posted := first, rejected := Some err \<rparr>
             | Inr cs \<Rightarrow> (unchanged d)\<lparr> posted := first @ [UpdateItemComponentsMessage cs] \<rparr>))"

text \<open>
  The handler installed by \<open>resolveCustomEditor\<close>: \<open>ClientMessages.safeParse(data)\<close>,
  \<open>if (!parsed.success) return\<close>, and the \<open>switch\<close> on the message type.
\<close>

definition onDidReceiveMessage :: "zod \<Rightarrow> server \<Rightarrow> document \<Rightarrow> js \<Rightarrow> outcome" where
  "onDidReceiveMessage z e d data =
     (case ClientMessages z data of
        None \<Rightarrow> unchanged d
      | Some (GetItemTextureMessage parsedItem) \<Rightarrow> on_get_item_texture e d parsedItem
      | Some (GetAnyResourceMessage version resource) \<Rightarrow> on_get_resource e d version resource
      | Some (UpdateItemMessage parsed_item) \<Rightarrow> on_update_item e d parsed_item
      | Some ReadyMessage \<Rightarrow> on_ready e d
      | Some other \<Rightarrow> unchanged d)"

section \<open>The webview's message handler (App, unnamed/part_003)\<close>

record app =
  minecraftVersions :: "string list"
  itemTextures :: "string \<rightharpoonup> string"
  resources :: "string \<rightharpoonup> string"
  editedItem :: "Item option"
  itemComponents :: "string list"

text \<open>
  The \<open>message\<close> listener of \<open>App\<close>: \<open>ServerMessages.safeParse(ev.data)\<close>,
  \<open>if (!result.success) return\<close>, and one state setter per message type.
\<close>

definition on_server_message :: "zod \<Rightarrow> app \<Rightarrow> js \<Rightarrow> app" where
  "on_server_message z st data =
     (case ServerMessages z data of
        None \<Rightarrow> st
      | Some (UpdateItemMessage it) \<Rightarrow> st\<lparr> editedItem := it \<rparr>
      | Some (UpdateMinecraftVersionsMessage vs) \<Rightarrow> st\<lparr> minecraftVersions := vs \<rparr>
      | Some (ItemTextureResponseMessage it texture) \<Rightarrow>
          st\<lparr> itemTextures := (itemTextures st)(hashItemTexture it \<mapsto> texture) \<rparr>
      | Some (AnyResourceResponseMessage version resource texture) \<Rightarrow>
          st\<lparr> resources := (resources st)(hashResource version resource \<mapsto> texture) \<rparr>
      | Some (UpdateItemComponentsMessage cs) \<Rightarrow> st\<lparr> itemComponents := cs \<rparr>
      | Some other \<Rightarrow> st)"

section \<open>The persisted document (src/item-editor.ts)\<close>

text \<open>
  A saved document is a JSON text, given by its syntax tree: the printing of the tree as
  characters by \<open>JSON.stringify\<close> and their encoding are the language's and are not
  part of this model.
\<close>

text \<open>
  \<open>JSON.stringify\<close>: \<open>undefined\<close> has no text, a number that is not finite is written as
  \<open>null\<close>, an \<open>undefined\<close> element of an array is written as \<open>null\<close>, and a property
  whose value is \<open>undefined\<close> is left out.
\<close>

fun JSON_stringify :: "js \<Rightarrow> json option"
  and stringify_elements :: "js list \<Rightarrow> json list"
  and stringify_properties :: "(string \<times> js) list \<Rightarrow> (string \<times> json) list"
where
  "JSON_stringify JUndefined = None"
| "JSON_stringify JNull = Some JsonNull"
| "JSON_stringify (JBool b) = Some (JsonBool b)"
| "JSON_stringify (JNum n) = (case n of Finite r \<Rightarrow> Some (JsonNumber r) | _ \<Rightarrow> Some JsonNull)"
| "JSON_stringify (JStr s) = Some (JsonString s)"
| "JSON_stringify (JArr vs) = Some (JsonArray (stringify_elements vs))"
| "JSON_stringify (JObj fs) = Some (JsonObject (stringify_properties fs))"
| "stringify_elements [] = []"
| "stringify_elements (v # vs) =
     (case JSON_stringify v of None \<Rightarrow> JsonNull | Some j \<Rightarrow> j) # stringify_elements vs"
| "stringify_properties [] = []"
| "stringify_properties ((k, v) # fs) =
     (case JSON_stringify v of
        None \<Rightarrow> stringify_properties fs
      | Some j \<Rightarrow> (k, j) # stringify_properties fs)"

text \<open>An item as the object the program holds.\<close>

definition Item_to_js :: "Item \<Rightarrow> js" where
  "Item_to_js it =
     JObj [(''minecraftVersion'', JStr (minecraftVersion it)),
           (''id'', JStr (id it)),
           (''count'', JNum (count it)),
           (''components'', JObj (map (\<lambda>(k, v). (k, JStr v)) (components it)))]"

text \<open>\<open>saveCustomDocumentAs\<close> writes \<open>JSON.stringify(document.item)\<close>.\<close>

definition saveCustomDocumentAs :: "document \<Rightarrow> json option" where
  "saveCustomDocumentAs d =
     JSON_stringify (case doc_item d of None \<Rightarrow> JNull | Some it \<Rightarrow> Item_to_js it)"

text \<open>
  \<open>ItemEditorDocument.init\<close>: \<open>Item.parse(JSON.parse(data))\<close> inside \<open>try\<close>; when either
  throws, the item stays \<open>null\<close>. The data is \<open>None\<close> when the file's text is not JSON.
\<close>

definition document_init :: "zod \<Rightarrow> (Item \<Rightarrow> string) \<Rightarrow> json option \<Rightarrow> document" where
  "document_init z h data =
     (case data of
        None \<Rightarrow> \<lparr> doc_item = None, doc_hash = None \<rparr>
      | Some j \<Rightarrow>
          (case Item_schema z (JSON_value j) of
             None \<Rightarrow> \<lparr> doc_item = None, doc_hash = None \<rparr>
           | Some it \<Rightarrow> \<lparr> doc_item = Some it, doc_hash = Some (h it) \<rparr>))"

text \<open>A valid item is one that the \<open>Item\<close> schema accepts.\<close>

definition valid_Item :: "zod \<Rightarrow> Item \<Rightarrow> bool" where
  "valid_Item z it = (Item_schema z (Item_to_js it) \<noteq> None)"

text \<open>Example messages, an example server and an example state of the webview.\<close>

definition nan_update :: js where
  "nan_update = JObj [(''type'', JStr ''update-item''),
     (''item'', JObj [(''minecraftVersion'', JStr ''1.21''), (''id'', JStr ''stone''),
                      (''count'', JNum NaN), (''components'', JObj [])])]"

definition ok_update :: js where
  "ok_update = JObj [(''type'', JStr ''update-item''),
     (''item'', JObj [(''minecraftVersion'', JStr ''1.21''), (''id'', JStr ''stone''),
                      (''count'', JNum (Finite 3)), (''components'', JObj [])])]"

definition ex_server :: server where
  "ex_server = host.extend ex_host
     (server.fields (Inr [''1.21'']) (\<lambda>v. Inr ()) (\<lambda>p. Inr ''iVBORw0KGgo='')
        (\<lambda>v. Inr [''minecraft:lore'', ''minecraft:enchantments'']) (\<lambda>it. minecraftVersion it @ id it)
        [''1.21''])"

definition ex_document :: document where
  "ex_document = \<lparr> doc_item = None, doc_hash = None \<rparr>"

definition ex_app :: app where
  "ex_app = \<lparr> minecraftVersions = [''1.21''], itemTextures = Map.empty, resources = Map.empty,
     editedItem = None, itemComponents = [] \<rparr>"

text \<open>
  The live-task table and the pending tasks agree: a pending task is the entry of its
  version, and an entry is a pending task of that version.
\<close>

definition live :: "manager \<Rightarrow> bool" where
  "live s \<longleftrightarrow>
     (\<forall>t v ph. t < length (tasks s) \<and> tasks s ! t = (v, Pending ph) \<longrightarrow> runningUnpackTasks s v = Some t) \<and>
     (\<forall>v t. runningUnpackTasks s v = Some t \<longrightarrow> t < length (tasks s) \<and> (\<exists>ph. tasks s ! t = (v, Pending ph)))"

text \<open>
  Two resource requests whose keys collide, the messages that answer them, and a server
  that holds a different file for each.
\<close>

definition resource_request :: "string \<Rightarrow> string \<Rightarrow> js" where
  "resource_request version resource =
     JObj [(''type'', JStr ''get-resource''), (''version'', JStr version), (''resource'', JStr resource)]"

definition colliding_server :: server where
  "colliding_server = host.extend ex_host
     (server.fields (Inr [''a'', ''a##b'']) (\<lambda>v. Inr ())
        (\<lambda>p. if p = ''~/.minecraft/.basalt/unpacked/a##b/c'' then Inr ''first''
             else if p = ''~/.minecraft/.basalt/unpacked/a/b##c'' then Inr ''second''
             else Inl (FsError ''ENOENT''))
        (\<lambda>v. Inr []) (\<lambda>it. minecraftVersion it @ id it) [''a'', ''a##b''])"

definition resource_response :: "string \<Rightarrow> string \<Rightarrow> string \<Rightarrow> js" where
  "resource_response version resource texture =
     JObj [(''type'', JStr ''resource''), (''version'', JStr version), (''resource'', JStr resource),
           (''texture'', JStr texture)]"

section \<open>Theorems: resource keys\<close>

lemmas schema_defs = ClientMessages_def ServerMessages_def or_schema_def
  GetItemTextureMessage_schema_def UpdateItemMessage_schema_def UpdateMinecraftVersionsMessage_schema_def
  ReadyMessage_schema_def ItemTextureResponseMessage_schema_def GetAnyResourceMessage_schema_def
  AnyResourceResponseMessage_schema_def UpdateItemComponentsMessage_schema_def
  Item_schema_def Item_nullable_def z_string_def z_number_def z_literal_def z_array_string_def
  z_record_string_string_def get_property_def

text \<open>
  Claim C10, as amended. The resource-key functions are not injective: distinct pairs of
  inputs are mapped to one key, because the key is the concatenation of the two inputs
  around the separator \<open>##\<close> and an input may contain the separator. The pairs
  \<open>(a##b, c)\<close> and \<open>(a, b##c)\<close> collide under \<open>hashResource\<close>, and two items with these
  versions and ids collide under \<open>hashItemTexture\<close>. So the webview, which files each
  response under its key, keeps the answers to both requests in one slot: after both
  responses the slot of the first request holds the texture of the second. The host files
  nothing under a key: handling a resource request or a texture request leaves the
  document as it was and fires no event.
\<close>

theorem hash_keys_not_injective:
  "(\<exists>v r v' r'. (v, r) \<noteq> (v', r') \<and> hashResource v r = hashResource v' r') \<and>
   hashResource ''a##b'' ''c'' = hashResource ''a'' ''b##c'' \<and>
   (\<exists>i j. (minecraftVersion i, id i) \<noteq> (minecraftVersion j, id j) \<and>
      hashItemTexture i = hashItemTexture j) \<and>
   hashItemTexture \<lparr> minecraftVersion = ''a##b'', id = ''c'', count = Finite 1, components = [] \<rparr> =
   hashItemTexture \<lparr> minecraftVersion = ''a'', id = ''b##c'', count = Finite 1, components = [] \<rparr> \<and>
   resources (on_server_message z (on_server_message z ex_app (resource_response ''a##b'' ''c'' ''first''))
       (resource_response ''a'' ''b##c'' ''second'')) (hashResource ''a##b'' ''c'') = Some ''second'' \<and>
   doc (on_get_resource e d version resource) = d \<and> fired (on_get_resource e d version resource) = 0 \<and>
   doc (on_get_item_texture e d parsedItem) = d \<and> fired (on_get_item_texture e d parsedItem) = 0"
proof -
  let ?i = "\<lparr> minecraftVersion = ''a##b'', id = ''c'', count = Finite 1, components = [] \<rparr>"
  let ?j = "\<lparr> minecraftVersion = ''a'', id = ''b##c'', count = Finite 1, components = [] \<rparr>"
  have r: "hashResource ''a##b'' ''c'' = hashResource ''a'' ''b##c''"
    by (simp add: hashResource_def)
  have "(''a##b'', ''c'') \<noteq> (''a'', ''b##c'')" by simp
  with r have 1: "\<exists>v r v' r'. (v, r) \<noteq> (v', r') \<and> hashResource v r = hashResource v' r'"
    by blast
  have t: "hashItemTexture ?i = hashItemTexture ?j"
    by (simp add: hashItemTexture_def)
  have "(minecraftVersion ?i, id ?i) \<noteq> (minecraftVersion ?j, id ?j)" by simp
  with t have 2: "\<exists>i j. (minecraftVersion i, id i) \<noteq> (minecraftVersion j, id j) \<and>
      hashItemTexture i = hashItemTexture j"
    by blast
  have c: "resources (on_server_message z (on_server_message z ex_app (resource_response ''a##b'' ''c'' ''first''))
       (resource_response ''a'' ''b##c'' ''second'')) (hashResource ''a##b'' ''c'') = Some ''second''"
    by (simp add: on_server_message_def schema_defs resource_response_def hashResource_def)
  have g: "doc (on_get_resource e d version resource) = d \<and> fired (on_get_resource e d version resource) = 0"
    by (simp add: on_get_resource_def unchanged_def split: sum.splits)
  have h: "doc (on_get_item_texture e d parsedItem) = d \<and> fired (on_get_item_texture e d parsedItem) = 0"
    by (simp add: on_get_item_texture_def unchanged_def split: sum.splits)
  from 1 r 2 t c g h show ?thesis by blast
qed

lemma colliding_fields:
  "getMinecraftVersions colliding_server = Inr [''a'', ''a##b'']"
  "ensureUnpackedVersion colliding_server v = Inr ()"
  "readFile_base64 colliding_server ''~/.minecraft/.basalt/unpacked/a##b/c'' = Inr ''first''"
  "readFile_base64 colliding_server ''~/.minecraft/.basalt/unpacked/a/b##c'' = Inr ''second''"
  "platform (host.truncate colliding_server) = ''linux''"
  "path_join (host.truncate colliding_server) = join_segments"
  by (simp_all add: colliding_server_def host.extend_def host.truncate_def server.fields_def ex_host_def)

text \<open>
  The two requests have one key, and the host answers each with its own file: nothing on
  the host is shared between them. So the claim's shared slot exists in the webview only.
\<close>

theorem hash_keys_host_counterexample:
  "hashResource ''a##b'' ''c'' = hashResource ''a'' ''b##c'' \<and>
   (\<forall>z. onDidReceiveMessage z colliding_server ex_document (resource_request ''a##b'' ''c'') =
      \<lparr> doc = ex_document, posted = [AnyResourceResponseMessage ''a##b'' ''c'' ''first''],
        fired = 0, rejected = None \<rparr>) \<and>
   (\<forall>z. onDidReceiveMessage z colliding_server ex_document (resource_request ''a'' ''b##c'') =
      \<lparr> doc = ex_document, posted = [AnyResourceResponseMessage ''a'' ''b##c'' ''second''],
        fired = 0, rejected = None \<rparr>)"
  by (simp add: hashResource_def onDidReceiveMessage_def on_get_resource_def unchanged_def schema_defs
      resource_request_def colliding_fields getUnpackedResource_def getUnpackedVersionDirectory_def
      getDotMinecraft_def)

section \<open>Theorems: bitmap font builder\<close>

lemma map_add_snoc: "m ++ map_of (xs @ [(k, v)]) = m(k \<mapsto> v) ++ map_of xs"
  by (rule ext) (simp add: map_add_def split: option.splits)

lemma char_loop_eq:
  "char_loop p h w i cs j tbl =
     tbl ++ map_of (rev (map (\<lambda>(col, c). (unat c, raw_char p h w i col c)) (enumerate j cs)))"
proof (induction cs arbitrary: j tbl)
  case Nil
  show ?case by simp
next
  case (Cons c cs)
  let ?f = "\<lambda>(col, c). (unat c, raw_char p h w i col c)"
  have "char_loop p h w i (c # cs) j tbl = char_loop p h w i cs (Suc j) (tbl(unat c \<mapsto> raw_char p h w i j c))"
    by simp
  also have "\<dots> = tbl(unat c \<mapsto> raw_char p h w i j c) ++ map_of (rev (map ?f (enumerate (Suc j) cs)))"
    by (rule Cons.IH)
  also have "\<dots> = tbl ++ map_of (rev (map ?f (enumerate (Suc j) cs)) @ [(unat c, raw_char p h w i j c)])"
    by (rule map_add_snoc [symmetric])
  also have "\<dots> = tbl ++ map_of (rev (map ?f (enumerate j (c # cs))))"
    by simp
  finally show ?case .
qed

lemma raw_char_spec: "raw_char p h (int (W div N)) i j c = spec_glyph p W N h i j c"
  by (simp add: raw_char_def spec_glyph_def)

lemma char_loop_spec_row:
  "char_loop p h (int (W div length r)) i r 0 tbl = tbl ++ map_of (rev (spec_row p W h i r))"
  by (simp add: char_loop_eq spec_row_def raw_char_spec)

lemma row_loop_eq:
  assumes "texture_width t p = Some W"
  shows "row_loop t (Some p) h rs i tbl =
     Inr (tbl ++ map_of (rev (concat (map (\<lambda>(ri, r). spec_row p W h ri r) (enumerate i rs)))))"
proof (induction rs arbitrary: i tbl)
  case Nil
  show ?case by simp
next
  case (Cons r rs)
  let ?g = "\<lambda>(ri, r). spec_row p W h ri r"
  have "row_loop t (Some p) h (r # rs) i tbl =
      row_loop t (Some p) h rs (Suc i) (tbl ++ map_of (rev (spec_row p W h i r)))"
    by (simp add: assms char_loop_spec_row)
  also have "\<dots> = Inr ((tbl ++ map_of (rev (spec_row p W h i r))) ++
      map_of (rev (concat (map ?g (enumerate (Suc i) rs)))))"
    by (rule Cons.IH)
  also have "\<dots> = Inr (tbl ++ map_of (rev (concat (map ?g (enumerate i (r # rs))))))"
    by simp
  finally show ?case .
qed

lemma MC2PAGE_width: "MC2PAGE f = Some p \<Longrightarrow> \<exists>W. texture_width t p = Some W"
  by (auto simp: MC2PAGE_def texture_width_def split: if_splits)

lemma provider_step:
  assumes "chars pr = [] \<or> MC2PAGE (pfile pr) \<noteq> None"
  shows "row_loop t (MC2PAGE (pfile pr)) (provider_height pr) (chars pr) 0 tbl =
     Inr (tbl ++ map_of (rev (spec_provider t pr)))"
proof (cases "chars pr = []")
  case True
  then show ?thesis by (simp add: spec_provider_def split: option.splits)
next
  case False
  with assms obtain p where p: "MC2PAGE (pfile pr) = Some p" by auto
  then obtain W where W: "texture_width t p = Some W" using MC2PAGE_width by blast
  show ?thesis
    by (simp add: p W row_loop_eq [OF W] spec_provider_def provider_height_def)
qed

lemma provider_loop_eq:
  assumes "list_all (\<lambda>p. chars p = [] \<or> MC2PAGE (pfile p) \<noteq> None) ps"
  shows "provider_loop t ps tbl = Inr (tbl ++ map_of (rev (concat (map (spec_provider t) ps))))"
  using assms
proof (induction ps arbitrary: tbl)
  case Nil
  show ?case by simp
next
  case (Cons pr ps)
  from Cons.prems have pr: "chars pr = [] \<or> MC2PAGE (pfile pr) \<noteq> None"
    and ps: "list_all (\<lambda>p. chars p = [] \<or> MC2PAGE (pfile p) \<noteq> None) ps"
    by simp_all
  have "provider_loop t (pr # ps) tbl = provider_loop t ps (tbl ++ map_of (rev (spec_provider t pr)))"
    by (simp add: provider_step [OF pr])
  also have "\<dots> = Inr ((tbl ++ map_of (rev (spec_provider t pr))) ++
      map_of (rev (concat (map (spec_provider t) ps))))"
    by (rule Cons.IH [OF ps])
  also have "\<dots> = Inr (tbl ++ map_of (rev (concat (map (spec_provider t) (pr # ps)))))"
    by simp
  finally show ?case .
qed

text \<open>
  Claim C5, as amended. For every recognised font manifest (each provider that has a row
  names one of the three atlas files of \<open>MC2PAGE\<close>) and all atlas widths, \<open>generate\<close>
  returns the glyph table of the reference definition: providers in manifest order, rows
  in order, cell width \<open>W div N\<close> for a row of \<open>N\<close> characters on a page of width \<open>W\<close>,
  position (column * cell width, row index * row height) with row height 8 when the
  provider declares none, advance equal to the cell width, zero offsets, no kerning, and
  the last assignment of a character code wins.
\<close>

theorem generate_refines_spec:
  "recognised d \<Longrightarrow> generate t d = Inr (spec_glyph_table t d)"
  by (simp add: generate_def recognised_def provider_loop_eq spec_glyph_table_def spec_assignments_def)

theorem generate_refines_spec_witness:
  "recognised ex_font \<and>
   generate ex_textures ex_font = Inr (spec_glyph_table ex_textures ex_font) \<and>
   spec_glyph_table ex_textures ex_font 0x4F =
     Some \<lparr> char_id = 0x4F, page = 0, x = 120, y = 0, width = 8, height = 8, letter = [0x4F],
            xAdvance = 8, yOffset = 0, xOffset = 0, kerning = [] \<rparr> \<and>
   spec_glyph_table ex_textures ex_font 0x41 =
     Some \<lparr> char_id = 0x41, page = 0, x = 65, y = 8, width = 65, height = 8, letter = [0x41],
            xAdvance = 65, yOffset = 0, xOffset = 0, kerning = [] \<rparr> \<and>
   spec_glyph_table ex_textures ex_font 0x42 =
     Some \<lparr> char_id = 0x42, page = 1, x = 64, y = 12, width = 64, height = 12, letter = [0x42],
            xAdvance = 64, yOffset = 0, xOffset = 0, kerning = [] \<rparr>"
proof -
  have r: "recognised ex_font"
    by (simp add: recognised_def ex_font_def MC2PAGE_def)
  have g: "generate ex_textures ex_font = Inr (spec_glyph_table ex_textures ex_font)"
    by (rule generate_refines_spec [OF r])
  have a: "spec_glyph_table ex_textures ex_font 0x4F =
     Some \<lparr> char_id = 0x4F, page = 0, x = 120, y = 0, width = 8, height = 8, letter = [0x4F],
            xAdvance = 8, yOffset = 0, xOffset = 0, kerning = [] \<rparr>"
    by code_simp
  have b: "spec_glyph_table ex_textures ex_font 0x41 =
     Some \<lparr> char_id = 0x41, page = 0, x = 65, y = 8, width = 65, height = 8, letter = [0x41],
            xAdvance = 65, yOffset = 0, xOffset = 0, kerning = [] \<rparr>"
    by code_simp
  have c: "spec_glyph_table ex_textures ex_font 0x42 =
     Some \<lparr> char_id = 0x42, page = 1, x = 64, y = 12, width = 64, height = 12, letter = [0x42],
            xAdvance = 64, yOffset = 0, xOffset = 0, kerning = [] \<rparr>"
    by code_simp
  from r g a b c show ?thesis by blast
qed

text \<open>
  A provider with a row and a file name outside \<open>MC2PAGE\<close>: \<open>generate\<close> throws at
  \<open>textures[page]!.width\<close> and builds no table.
\<close>

theorem generate_unrecognised_counterexample:
  "generate ex_textures bad_font = Inl TypeError \<and>
   generate ex_textures bad_font \<noteq> Inr (spec_glyph_table ex_textures bad_font)"
  by (simp add: generate_def bad_font_def MC2PAGE_def)

section \<open>Theorems: tooltip layout\<close>

text \<open>
  Claim C4 says that the vertical cursor advances once per line by the tallest run height
  seen in that line. The loop stores \<open>Math.max(0, text.height)\<close> of the run it has just
  placed, so a line advances the cursor by the height of its last run. On the line
  \<open>["a\nb", "c"]\<close> followed by the line \<open>"d"\<close>, with a first run of height 58 and the
  other runs of height 29, the second line is placed at \<open>y = 29\<close> and the panel is
  \<open>29 + 29 + 32\<close> high, where the tallest runs give \<open>58 + 29 + 32\<close>. The horizontal
  cursor and the panel width are as the claim states.
\<close>

theorem buildTooltip_advances_by_last_run:
  "buildTooltip ex_metrics [Arr [Str two_line_text, Str ''c''], Str ''d''] =
     \<lparr> rect_width = 28 + 32, rect_height = 29 + 29 + 32,
       border_x = 8, border_y = 8, border_width = 28 + 16, border_height = 29 + 29 + 16,
       border_radius = 2, text_container_x = 16, text_container_y = 16,
       text_children =
         [\<lparr> run_text = two_line_text, position_x = 0, position_y = 0 \<rparr>,
          \<lparr> run_text = ''c'', position_x = 14, position_y = 0 \<rparr>,
          \<lparr> run_text = ''d'', position_x = 0, position_y = 29 \<rparr>] \<rparr> \<and>
   snd (ex_metrics two_line_text) = 58 \<and>
   rect_height (buildTooltip ex_metrics [Arr [Str two_line_text, Str ''c''], Str ''d''])
     \<noteq> 58 + 29 + 32"
  by (simp add: buildTooltip_def ex_metrics_def two_line_text_def TOOLTIP_PADDING_OUT_X_def
      TOOLTIP_PADDING_OUT_Y_def TOOLTIP_PADDING_INNER_X_def TOOLTIP_PADDING_INNER_Y_def
      TOOLTIP_BORDER_RADIUS_def)

section \<open>Theorems: enchantment detection\<close>

text \<open>
  Claim C6, as amended. For every item and every parser of the structured-data notation,
  \<open>isItemEnchanted\<close> is true if and only if either the components contain the glint
  override and the override's text with its line feeds removed parses to the byte 1, or
  the components contain no override and contain an enchantment entry whose text with its
  line feeds removed parses to a compound tag with a non-empty list. When the override is
  present the enchantment entry is not looked at, whatever the override parses to. A
  component whose text with its line feeds removed makes the parser throw gives \<open>false\<close>:
  the throw is caught in \<open>tryParseSNBT\<close>.
\<close>

theorem isItemEnchanted_iff:
  "(isItemEnchanted P item \<longleftrightarrow>
     (\<exists>s. map_of (components item) ''minecraft:enchantment_glint_override'' = Some s \<and>
          P (remove_newlines s) = Inr (ByteTag 1)) \<or>
     (map_of (components item) ''minecraft:enchantment_glint_override'' = None \<and>
      (\<exists>s l. map_of (components item) ''minecraft:enchantments'' = Some s \<and>
          P (remove_newlines s) = Inr (CompoundTag l) \<and> l \<noteq> []))) \<and>
   (\<forall>s e. map_of (components item) ''minecraft:enchantment_glint_override'' = Some s \<and>
          P (remove_newlines s) = Inl e \<longrightarrow> \<not> isItemEnchanted P item) \<and>
   (\<forall>s e. map_of (components item) ''minecraft:enchantment_glint_override'' = None \<and>
          map_of (components item) ''minecraft:enchantments'' = Some s \<and>
          P (remove_newlines s) = Inl e \<longrightarrow> \<not> isItemEnchanted P item)"
  by (auto simp: isItemEnchanted_def tryParseSNBT_def split: option.splits sum.splits Tag.splits)

text \<open>
  An item whose override does not parse and whose enchantment list is not empty, and an
  item without an override whose enchantment entry does not parse: the theorem gives that
  neither is enchanted.
\<close>

theorem isItemEnchanted_iff_witness:
  "map_of (components (ex_item [(''minecraft:enchantments'', ''{sharpness:3}''),
      (''minecraft:enchantment_glint_override'', ''tru'')])) ''minecraft:enchantment_glint_override''
     = Some ''tru'' \<and>
   ex_parseSNBT (remove_newlines ''tru'') = Inl SyntaxError \<and>
   \<not> isItemEnchanted ex_parseSNBT (ex_item [(''minecraft:enchantments'', ''{sharpness:3}''),
      (''minecraft:enchantment_glint_override'', ''tru'')]) \<and>
   map_of (components (ex_item [(''minecraft:enchantments'', ''{sharpness'')]))
      ''minecraft:enchantment_glint_override'' = None \<and>
   map_of (components (ex_item [(''minecraft:enchantments'', ''{sharpness'')]))
      ''minecraft:enchantments'' = Some ''{sharpness'' \<and>
   ex_parseSNBT (remove_newlines ''{sharpness'') = Inl SyntaxError \<and>
   \<not> isItemEnchanted ex_parseSNBT (ex_item [(''minecraft:enchantments'', ''{sharpness'')]) \<and>
   isItemEnchanted ex_parseSNBT (ex_item [(''minecraft:enchantments'', ''{sharpness:3}'')]) \<and>
   isItemEnchanted ex_parseSNBT (ex_item [(''minecraft:enchantments'', ''{}''),
      (''minecraft:enchantment_glint_override'', [CHR ''1'', CHR 0x0A, CHR ''b''])]) \<and>
   \<not> isItemEnchanted ex_parseSNBT (ex_item [(''minecraft:enchantments'', ''{sharpness:3}''),
      (''minecraft:enchantment_glint_override'', ''0b'')])"
proof -
  let ?bad = "ex_item [(''minecraft:enchantments'', ''{sharpness:3}''),
      (''minecraft:enchantment_glint_override'', ''tru'')]"
  let ?cut = "ex_item [(''minecraft:enchantments'', ''{sharpness'')]"
  have m: "map_of (components ?bad) ''minecraft:enchantment_glint_override'' = Some ''tru''"
    by (simp add: ex_item_def)
  have p: "ex_parseSNBT (remove_newlines ''tru'') = Inl SyntaxError"
    by (simp add: ex_parseSNBT_def remove_newlines_def)
  from isItemEnchanted_iff [of ex_parseSNBT ?bad] m p
  have 1: "\<not> isItemEnchanted ex_parseSNBT ?bad"
    by blast
  have n: "map_of (components ?cut) ''minecraft:enchantment_glint_override'' = None"
    by (simp add: ex_item_def)
  have e: "map_of (components ?cut) ''minecraft:enchantments'' = Some ''{sharpness''"
    by (simp add: ex_item_def)
  have q: "ex_parseSNBT (remove_newlines ''{sharpness'') = Inl SyntaxError"
    by (simp add: ex_parseSNBT_def remove_newlines_def)
  from isItemEnchanted_iff [of ex_parseSNBT ?cut] n e q
  have 2: "\<not> isItemEnchanted ex_parseSNBT ?cut"
    by blast
  have 3: "isItemEnchanted ex_parseSNBT (ex_item [(''minecraft:enchantments'', ''{sharpness:3}'')])"
    by (simp add: isItemEnchanted_def tryParseSNBT_def ex_parseSNBT_def ex_item_def remove_newlines_def)
  have 4: "isItemEnchanted ex_parseSNBT (ex_item [(''minecraft:enchantments'', ''{}''),
      (''minecraft:enchantment_glint_override'', [CHR ''1'', CHR 0x0A, CHR ''b''])])"
    by (simp add: isItemEnchanted_def tryParseSNBT_def ex_parseSNBT_def ex_item_def remove_newlines_def)
  have 5: "\<not> isItemEnchanted ex_parseSNBT (ex_item [(''minecraft:enchantments'', ''{sharpness:3}''),
      (''minecraft:enchantment_glint_override'', ''0b'')])"
    by (simp add: isItemEnchanted_def tryParseSNBT_def ex_parseSNBT_def ex_item_def remove_newlines_def)
  from m p 1 n e q 2 3 4 5 show ?thesis by blast
qed

text \<open>
  The conditions of the claim, read on the component strings themselves, fail: the
  override \<open>1\<close>, line feed, \<open>b\<close> is a string on which the parser throws, and the item is
  enchanted, because the parser is given \<open>1b\<close>.
\<close>

theorem isItemEnchanted_iff_counterexample:
  "map_of (components (ex_item [(''minecraft:enchantment_glint_override'', [CHR ''1'', CHR 0x0A, CHR ''b''])]))
      ''minecraft:enchantment_glint_override'' = Some [CHR ''1'', CHR 0x0A, CHR ''b''] \<and>
   ex_parseSNBT [CHR ''1'', CHR 0x0A, CHR ''b''] = Inl SyntaxError \<and>
   isItemEnchanted ex_parseSNBT (ex_item [(''minecraft:enchantment_glint_override'', [CHR ''1'', CHR 0x0A, CHR ''b''])]) \<and>
   \<not> (isItemEnchanted ex_parseSNBT
        (ex_item [(''minecraft:enchantment_glint_override'', [CHR ''1'', CHR 0x0A, CHR ''b''])]) \<longleftrightarrow>
      (\<exists>s. map_of (components (ex_item [(''minecraft:enchantment_glint_override'', [CHR ''1'', CHR 0x0A, CHR ''b''])]))
              ''minecraft:enchantment_glint_override'' = Some s \<and>
           ex_parseSNBT s = Inr (ByteTag 1)) \<or>
      (map_of (components (ex_item [(''minecraft:enchantment_glint_override'', [CHR ''1'', CHR 0x0A, CHR ''b''])]))
              ''minecraft:enchantment_glint_override'' = None \<and>
       (\<exists>s l. map_of (components (ex_item [(''minecraft:enchantment_glint_override'', [CHR ''1'', CHR 0x0A, CHR ''b''])]))
              ''minecraft:enchantments'' = Some s \<and>
           ex_parseSNBT s = Inr (CompoundTag l) \<and> l \<noteq> [])))"
  by (simp add: isItemEnchanted_def tryParseSNBT_def ex_parseSNBT_def ex_item_def remove_newlines_def)

section \<open>Theorems: the property order of objects\<close>

lemma array_index_inj: "array_index k = Some n \<Longrightarrow> array_index k' = Some n \<Longrightarrow> k = k'"
  by (auto simp: array_index_def split: if_splits)

lemma not_digits_no_index: "\<not> list_all is_digit s \<Longrightarrow> array_index s = None"
  by (simp add: array_index_def)

lemma no_index_no_precedes: "array_index k = None \<Longrightarrow> \<not> precedes k k'"
  by (simp add: precedes_def)

lemma map_of_put: "map_of (put k v fs) = (map_of fs)(k \<mapsto> v)"
  by (induction fs) (auto simp: fun_upd_twist)

lemma keys_put: "fst ` set (put k v fs) = insert k (fst ` set fs)"
proof (induction fs)
  case Nil
  show ?case by simp
next
  case (Cons f fs)
  obtain k' v' where f: "f = (k', v')" by (cases f)
  show ?case using Cons.IH by (auto simp: f image_iff)
qed

lemma map_of_put_all: "map_of (put_all ms fs) = map_of fs ++ map_of (rev ms)"
proof (induction ms arbitrary: fs)
  case Nil
  show ?case by simp
next
  case (Cons m ms)
  obtain k v where m: "m = (k, v)" by (cases m)
  have "map_of (put_all (m # ms) fs) = map_of (put k v fs) ++ map_of (rev ms)"
    unfolding m by (simp add: Cons.IH)
  also have "\<dots> = (map_of fs)(k \<mapsto> v) ++ map_of (rev ms)"
    by (simp only: map_of_put)
  also have "\<dots> = map_of fs ++ map_of (rev (m # ms))"
    unfolding m by (rule ext) (simp add: map_add_def map_of_append split: option.splits)
  finally show ?case .
qed

lemma map_of_object_of: "map_of (object_of ms) = map_of (rev ms)"
  by (simp add: object_of_def map_of_put_all)

text \<open>The first property when no key is an array index: the first one declared.\<close>

lemma put_keeps_head:
  assumes "array_index k = None" "fs \<noteq> []"
  shows "put k v fs \<noteq> [] \<and> fst (hd (put k v fs)) = fst (hd fs)"
proof -
  from assms(2) obtain k' v' rest where "fs = (k', v') # rest" by (cases fs) auto
  with assms(1) show ?thesis by (simp add: no_index_no_precedes)
qed

lemma put_all_keeps_head:
  assumes "\<forall>k \<in> fst ` set ms. array_index k = None" "fs \<noteq> []"
  shows "put_all ms fs \<noteq> [] \<and> fst (hd (put_all ms fs)) = fst (hd fs)"
  using assms
proof (induction ms arbitrary: fs)
  case Nil
  then show ?case by simp
next
  case (Cons m ms)
  obtain k v where m: "m = (k, v)" by (cases m)
  from Cons.prems m have k: "array_index k = None" by simp
  from put_keeps_head [OF k Cons.prems(2)]
  have h: "put k v fs \<noteq> []" "fst (hd (put k v fs)) = fst (hd fs)" by simp_all
  from Cons.prems have "\<forall>k \<in> fst ` set ms. array_index k = None" by simp
  from Cons.IH [OF this h(1)] h(2) show ?case by (simp add: m)
qed

lemma object_of_first_declared:
  assumes "\<forall>k \<in> fst ` set ((k, v) # ms). array_index k = None"
  shows "object_of ((k, v) # ms) \<noteq> [] \<and> fst (hd (object_of ((k, v) # ms))) = k"
proof -
  from assms have "\<forall>k \<in> fst ` set ms. array_index k = None" by simp
  from put_all_keeps_head [OF this, of "[(k, v)]"] show ?thesis
    by (simp add: object_of_def)
qed

text \<open>The first property when a key is an array index: the one of the least index.\<close>

lemma put_least_head:
  assumes k: "array_index k = Some n"
    and fs: "\<forall>k' \<in> fst ` set fs. \<forall>n'. array_index k' = Some n' \<longrightarrow> n \<le> n'"
  shows "put k v fs \<noteq> [] \<and> fst (hd (put k v fs)) = k"
proof (cases fs)
  case Nil
  then show ?thesis by simp
next
  case (Cons f rest)
  obtain k0 v0 where f: "f = (k0, v0)" by (cases f)
  show ?thesis
  proof (cases "k = k0")
    case True
    then show ?thesis by (simp add: Cons f)
  next
    case False
    have "precedes k k0"
    proof (cases "array_index k0")
      case None
      with k show ?thesis by (simp add: precedes_def)
    next
      case (Some n0)
      with fs Cons f have "n \<le> n0" by simp
      moreover have "n \<noteq> n0"
      proof
        assume "n = n0"
        with k Some have "k = k0" by (auto intro: array_index_inj)
        with False show False by simp
      qed
      ultimately show ?thesis using k Some by (simp add: precedes_def)
    qed
    with False show ?thesis by (simp add: Cons f)
  qed
qed

lemma put_stays_head:
  assumes k: "array_index k = Some n"
    and hd: "fs \<noteq> []" "fst (hd fs) = k"
    and k': "\<forall>n'. array_index k' = Some n' \<longrightarrow> n \<le> n'"
  shows "put k' v' fs \<noteq> [] \<and> fst (hd (put k' v' fs)) = k"
proof -
  from hd obtain v0 rest where fs: "fs = (k, v0) # rest" by (cases fs) auto
  have "k' \<noteq> k \<Longrightarrow> \<not> precedes k' k"
    using k k' by (auto simp: precedes_def split: option.splits)
  then show ?thesis by (auto simp: fs)
qed

lemma put_all_least_head:
  assumes k: "array_index k = Some n"
    and fs: "\<forall>k' \<in> fst ` set fs. \<forall>n'. array_index k' = Some n' \<longrightarrow> n \<le> n'"
    and ms: "\<forall>k' \<in> fst ` set ms. \<forall>n'. array_index k' = Some n' \<longrightarrow> n \<le> n'"
    and somewhere: "k \<in> fst ` set ms \<or> (fs \<noteq> [] \<and> fst (hd fs) = k)"
  shows "put_all ms fs \<noteq> [] \<and> fst (hd (put_all ms fs)) = k"
  using fs ms somewhere
proof (induction ms arbitrary: fs)
  case Nil
  then show ?case by simp
next
  case (Cons m ms)
  obtain k' v' where m: "m = (k', v')" by (cases m)
  from Cons.prems(2) m have k': "\<forall>n'. array_index k' = Some n' \<longrightarrow> n \<le> n'"
    and rest: "\<forall>k' \<in> fst ` set ms. \<forall>n'. array_index k' = Some n' \<longrightarrow> n \<le> n'"
    by simp_all
  have fs': "\<forall>k'' \<in> fst ` set (put k' v' fs). \<forall>n'. array_index k'' = Some n' \<longrightarrow> n \<le> n'"
    using Cons.prems(1) k' by (simp add: keys_put)
  have "k \<in> fst ` set ms \<or> (put k' v' fs \<noteq> [] \<and> fst (hd (put k' v' fs)) = k)"
  proof (cases "k' = k")
    case True
    with put_least_head [OF k Cons.prems(1), of v'] show ?thesis by simp
  next
    case False
    show ?thesis
    proof (cases "fs \<noteq> [] \<and> fst (hd fs) = k")
      case True
      then have "fs \<noteq> []" "fst (hd fs) = k" by simp_all
      from put_stays_head [OF k this k'] show ?thesis by simp
    next
      case no: False
      with Cons.prems(3) have "k \<in> fst ` set (m # ms)" by blast
      with False m show ?thesis by auto
    qed
  qed
  from Cons.IH [OF fs' rest this] show ?case by (simp add: m)
qed

lemma object_of_least_index:
  assumes "array_index k = Some n" "k \<in> fst ` set ms"
    and "\<forall>k' \<in> fst ` set ms. \<forall>n'. array_index k' = Some n' \<longrightarrow> n \<le> n'"
  shows "object_of ms \<noteq> [] \<and> fst (hd (object_of ms)) = k"
  unfolding object_of_def
  by (rule put_all_least_head [OF assms(1) _ assms(3)]) (simp_all add: assms(2))

text \<open>A property list is what its own entries build.\<close>

lemma put_at_end:
  "\<forall>a \<in> set fs. fst a \<noteq> k \<and> \<not> precedes k (fst a) \<Longrightarrow> put k v fs = fs @ [(k, v)]"
  by (induction fs) auto

lemma put_all_object_list:
  assumes "sorted_wrt (\<lambda>a b. fst a \<noteq> fst b \<and> \<not> precedes (fst b) (fst a)) ms"
    and "\<forall>a \<in> set fs. \<forall>b \<in> set ms. fst a \<noteq> fst b \<and> \<not> precedes (fst b) (fst a)"
  shows "put_all ms fs = fs @ ms"
  using assms
proof (induction ms arbitrary: fs)
  case Nil
  show ?case by simp
next
  case (Cons m ms)
  obtain k v where m: "m = (k, v)" by (cases m)
  from Cons.prems(2) m have "\<forall>a \<in> set fs. fst a \<noteq> k \<and> \<not> precedes k (fst a)" by simp
  then have p: "put k v fs = fs @ [(k, v)]" by (rule put_at_end)
  from Cons.prems have s: "sorted_wrt (\<lambda>a b. fst a \<noteq> fst b \<and> \<not> precedes (fst b) (fst a)) ms"
    and a: "\<forall>a \<in> set (fs @ [(k, v)]). \<forall>b \<in> set ms. fst a \<noteq> fst b \<and> \<not> precedes (fst b) (fst a)"
    by (auto simp: m)
  from Cons.IH [OF s a] show ?case by (simp add: m p)
qed

lemma object_of_object_list: "object_list fs \<Longrightarrow> object_of fs = fs"
  unfolding object_list_def object_of_def by (rule put_all_object_list [where fs = "[]", simplified])

lemma read_members_map: "read_members ms = map (\<lambda>(k, j). (k, JSON_value j)) ms"
  by (induction ms) auto

lemma map_of_read_members: "map_of (rev (read_members ms)) k = map_option JSON_value (map_of (rev ms) k)"
  by (simp add: read_members_map rev_map map_of_map)

lemma keys_read_members: "fst ` set (read_members ms) = fst ` set ms"
  by (simp add: read_members_map image_image case_prod_unfold)

section \<open>Theorems: resource resolver\<close>

lemma select_side: "map_of ts ''side'' = Some v \<Longrightarrow> select_texture (JObj ts) = Inr v"
  by (simp add: select_texture_def)

lemma select_first:
  assumes "ts \<noteq> []" "fst (hd ts) = k" "map_of ts k = Some v" "map_of ts ''side'' = None"
  shows "select_texture (JObj ts) = Inr v"
proof -
  from assms(1) obtain k' v' rest where ts: "ts = (k', v') # rest" by (cases ts) auto
  with assms(2) assms(3) have "v' = v" by simp
  with ts assms(4) show ?thesis by (simp add: select_texture_def)
qed

lemma textures_of_tree:
  assumes "map_of (rev fs) ''textures'' = Some (JsonObject ms)"
  shows "blockData_textures (JObj (object_of (read_members fs))) = Inr (JObj (object_of (read_members ms)))"
  using assms by (simp add: blockData_textures_def map_of_object_of map_of_read_members)

lemma value_of_member:
  "map_of (rev ms) k = Some (JsonString r) \<Longrightarrow> map_of (object_of (read_members ms)) k = Some (JStr r)"
  by (simp add: map_of_object_of map_of_read_members)

lemma no_side_member:
  "''side'' \<notin> fst ` set ms \<Longrightarrow> map_of (object_of (read_members ms)) ''side'' = None"
  by (simp add: map_of_object_of map_of_read_members map_of_eq_None_iff)

lemma model_texture_side:
  assumes "map_of (rev fs) ''textures'' = Some (JsonObject ms)"
    and "map_of (rev ms) ''side'' = Some (JsonString r)"
  shows "model_texture (JSON_value (JsonObject fs)) = Inr (stripMinecraftNamespace r)"
  by (simp add: model_texture_def textures_of_tree [OF assms(1)]
      select_side [OF value_of_member [OF assms(2)]] texture_name_def)

lemma model_texture_first_declared:
  assumes "map_of (rev fs) ''textures'' = Some (JsonObject ms)"
    and "''side'' \<notin> fst ` set ms" "ms = (k, j) # rest"
    and "\<forall>k' \<in> fst ` set ms. array_index k' = None"
    and "map_of (rev ms) k = Some (JsonString r)"
  shows "model_texture (JSON_value (JsonObject fs)) = Inr (stripMinecraftNamespace r)"
proof -
  let ?ts = "object_of (read_members ms)"
  have "\<forall>k' \<in> fst ` set ((k, JSON_value j) # read_members rest). array_index k' = None"
    using assms(3) assms(4) keys_read_members [of rest] by simp
  from object_of_first_declared [OF this]
  have h: "?ts \<noteq> []" "fst (hd ?ts) = k" by (simp_all add: assms(3))
  have "select_texture (JObj ?ts) = Inr (JStr r)"
    by (rule select_first [OF h value_of_member [OF assms(5)] no_side_member [OF assms(2)]])
  then show ?thesis
    by (simp add: model_texture_def textures_of_tree [OF assms(1)] texture_name_def)
qed

lemma model_texture_least_index:
  assumes "map_of (rev fs) ''textures'' = Some (JsonObject ms)"
    and "''side'' \<notin> fst ` set ms" "k \<in> fst ` set ms" "array_index k = Some n"
    and "\<forall>k' \<in> fst ` set ms. \<forall>n'. array_index k' = Some n' \<longrightarrow> n \<le> n'"
    and "map_of (rev ms) k = Some (JsonString r)"
  shows "model_texture (JSON_value (JsonObject fs)) = Inr (stripMinecraftNamespace r)"
proof -
  let ?ts = "object_of (read_members ms)"
  have "object_of (read_members ms) \<noteq> [] \<and> fst (hd (object_of (read_members ms))) = k"
    by (rule object_of_least_index [OF assms(4)]) (simp_all add: keys_read_members assms(3) assms(5))
  then have h: "?ts \<noteq> []" "fst (hd ?ts) = k" by simp_all
  have "select_texture (JObj ?ts) = Inr (JStr r)"
    by (rule select_first [OF h value_of_member [OF assms(6)] no_side_member [OF assms(2)]])
  then show ?thesis
    by (simp add: model_texture_def textures_of_tree [OF assms(1)] texture_name_def)
qed

lemma resolve_from_model:
  assumes "getUnpackedVersionDirectory h version = Inr dir"
    and "\<not> exists h (path_join h [dir, ''textures'', ''item'', substring_after CHR '':'' item_id @ ''.png''])"
    and "readFile h (path_join h [dir, ''models'', ''block'', substring_after CHR '':'' item_id @ ''.json'']) = Inr blockModel"
    and "JSON_text h blockModel = Some t"
    and "model_texture (JSON_value t) = Inr name"
  shows "getUnpackedItemResource h version item_id = Inr (path_join h [dir, ''textures'', ''block'', name @ ''.png''])"
  using assms by (simp add: getUnpackedItemResource_def Let_def JSON_parse_def)

lemma json_distinct:
  "stone_json \<noteq> dirt_json" "stone_json \<noteq> sand_json" "stone_json \<noteq> torch_json"
  "stone_json \<noteq> lamp_json" "stone_json \<noteq> glass_json"
  "dirt_json \<noteq> stone_json" "dirt_json \<noteq> sand_json" "dirt_json \<noteq> torch_json"
  "dirt_json \<noteq> lamp_json" "dirt_json \<noteq> glass_json"
  "sand_json \<noteq> stone_json" "sand_json \<noteq> dirt_json" "sand_json \<noteq> torch_json"
  "sand_json \<noteq> lamp_json" "sand_json \<noteq> glass_json"
  "torch_json \<noteq> stone_json" "torch_json \<noteq> dirt_json" "torch_json \<noteq> sand_json"
  "torch_json \<noteq> lamp_json" "torch_json \<noteq> glass_json"
  "lamp_json \<noteq> stone_json" "lamp_json \<noteq> dirt_json" "lamp_json \<noteq> sand_json"
  "lamp_json \<noteq> torch_json" "lamp_json \<noteq> glass_json"
  "glass_json \<noteq> stone_json" "glass_json \<noteq> dirt_json" "glass_json \<noteq> sand_json"
  "glass_json \<noteq> torch_json" "glass_json \<noteq> lamp_json"
  by (simp_all add: stone_json_def dirt_json_def sand_json_def torch_json_def lamp_json_def
      glass_json_def quoted_def)

lemma char_of_48: "char_of (48::nat) = CHR ''0''"
  by (simp add: char_of_def bit_0)

lemma example_keys:
  "array_index ''side'' = None" "array_index ''top'' = None" "array_index ''all'' = None"
  "array_index ''particle'' = None" "array_index ''textures'' = None"
  by (simp_all add: array_index_def is_digit_def)

lemma example_index: "array_index ''0'' = Some 0"
  by (simp add: array_index_def is_digit_def decimal_value_def decimal.simps [of 0] char_of_48)

lemma ex_dir: "getUnpackedVersionDirectory ex_host ''1.21'' = Inr ''~/.minecraft/.basalt/unpacked/1.21''"
  by (simp add: getUnpackedVersionDirectory_def getDotMinecraft_def ex_host_def)

lemma ex_path_join: "path_join ex_host = join_segments"
  by (simp add: ex_host_def)

lemma ex_accessible:
  "accessible ex_host ''~/.minecraft/.basalt/unpacked/1.21/textures/item/apple.png'' = Some (True, True)"
  "accessible ex_host ''~/.minecraft/.basalt/unpacked/1.21/textures/item/lamp.png'' = Some (True, False)"
  "accessible ex_host ''~/.minecraft/.basalt/unpacked/1.21/textures/item/stone.png'' = None"
  "accessible ex_host ''~/.minecraft/.basalt/unpacked/1.21/textures/item/dirt.png'' = None"
  "accessible ex_host ''~/.minecraft/.basalt/unpacked/1.21/textures/item/sand.png'' = None"
  "accessible ex_host ''~/.minecraft/.basalt/unpacked/1.21/textures/item/torch.png'' = None"
  "accessible ex_host ''~/.minecraft/.basalt/unpacked/1.21/textures/item/glass.png'' = None"
  "accessible ex_host ''~/.minecraft/.basalt/unpacked/1.21/textures/item/gravel.png'' = None"
  by (simp_all add: ex_host_def)

lemma ex_readFile:
  "readFile ex_host ''~/.minecraft/.basalt/unpacked/1.21/models/block/stone.json'' = Inr stone_json"
  "readFile ex_host ''~/.minecraft/.basalt/unpacked/1.21/models/block/dirt.json'' = Inr dirt_json"
  "readFile ex_host ''~/.minecraft/.basalt/unpacked/1.21/models/block/sand.json'' = Inr sand_json"
  "readFile ex_host ''~/.minecraft/.basalt/unpacked/1.21/models/block/torch.json'' = Inr torch_json"
  "readFile ex_host ''~/.minecraft/.basalt/unpacked/1.21/models/block/lamp.json'' = Inr lamp_json"
  "readFile ex_host ''~/.minecraft/.basalt/unpacked/1.21/models/block/glass.json'' = Inr glass_json"
  "readFile ex_host ''~/.minecraft/.basalt/unpacked/1.21/models/block/gravel.json'' = Inl (FsError ''ENOENT'')"
  by (simp_all add: ex_host_def)

lemma ex_JSON_text:
  "JSON_text ex_host stone_json =
     Some (JsonObject [(''textures'', JsonObject [(''side'', JsonString ''block/foo'')])])"
  "JSON_text ex_host dirt_json =
     Some (JsonObject [(''textures'', JsonObject [(''top'', JsonString ''minecraft:block/dirt_top''),
                                                  (''all'', JsonString ''block/dirt'')])])"
  "JSON_text ex_host sand_json = Some (JsonObject [])"
  "JSON_text ex_host torch_json =
     Some (JsonObject [(''textures'', JsonObject [(''particle'', JsonString ''block/particle''),
                                                  (''0'', JsonString ''block/zero'')])])"
  "JSON_text ex_host lamp_json =
     Some (JsonObject [(''textures'', JsonObject [(''side'', JsonString ''block/lamp_side'')])])"
  "JSON_text ex_host glass_json =
     Some (JsonObject [(''textures'', JsonObject [(''side'', JsonString ''minecraft:glass'')])])"
  by (simp_all add: ex_host_def json_distinct)

lemma ex_torch:
  "model_texture (JSON_value (JsonObject [(''textures'', JsonObject [(''particle'', JsonString ''block/particle''),
      (''0'', JsonString ''block/zero'')])])) = Inr ''zero''"
  by (simp add: model_texture_def blockData_textures_def select_texture_def texture_name_def
      stripMinecraftNamespace_def substring_after_def object_of_def precedes_def example_keys example_index)

lemma ex_lamp:
  "model_texture (JSON_value (JsonObject [(''textures'', JsonObject [(''side'', JsonString ''block/lamp_side'')])]))
     = Inr ''lamp_side''"
  by (simp add: model_texture_def blockData_textures_def select_texture_def texture_name_def
      stripMinecraftNamespace_def substring_after_def object_of_def precedes_def example_keys example_index)

lemma ex_glass:
  "model_texture (JSON_value (JsonObject [(''textures'', JsonObject [(''side'', JsonString ''minecraft:glass'')])]))
     = Inr ''minecraft:glass''"
  by (simp add: model_texture_def blockData_textures_def select_texture_def texture_name_def
      stripMinecraftNamespace_def substring_after_def object_of_def precedes_def example_keys example_index)

text \<open>
  Claim C3, as amended. On a host where the version's directory resolves, for every
  version and item id: the id is cut after its first colon; when the item texture of that
  name passes the \<open>exists\<close> check (a file that the process may read and write), its path
  is the result, whatever the block model holds. When it does not pass and the block model
  is read and its text is an object whose \<open>textures\<close> member, the last one declared under
  that name, is an object with the declared members \<open>ms\<close>, the result is the block texture
  named by a reference \<open>r\<close> cut after its first slash, where \<open>r\<close> is: the value of
  \<open>side\<close> (the last one declared) when that is a string; with no \<open>side\<close> and no member
  name that is an array index, the value of the first declared member; with no \<open>side\<close> and
  a member name that is an array index, the value of the member of the least index. For
  \<open>{textures:{side:"block/foo"}}\<close> the result is the block texture \<open>foo.png\<close>.
\<close>

theorem getUnpackedItemResource_precedence:
  assumes dir: "getUnpackedVersionDirectory h version = Inr dir"
  shows
   "(exists h (path_join h [dir, ''textures'', ''item'', substring_after CHR '':'' item_id @ ''.png'']) \<longrightarrow>
       getUnpackedItemResource h version item_id =
         Inr (path_join h [dir, ''textures'', ''item'', substring_after CHR '':'' item_id @ ''.png''])) \<and>
    (\<not> exists h (path_join h [dir, ''textures'', ''item'', substring_after CHR '':'' item_id @ ''.png'']) \<and>
     readFile h (path_join h [dir, ''models'', ''block'', substring_after CHR '':'' item_id @ ''.json'']) = Inr blockModel \<and>
     JSON_text h blockModel = Some (JsonObject fs) \<and> map_of (rev fs) ''textures'' = Some (JsonObject ms) \<longrightarrow>
       (\<forall>r. map_of (rev ms) ''side'' = Some (JsonString r) \<longrightarrow>
          getUnpackedItemResource h version item_id =
            Inr (path_join h [dir, ''textures'', ''block'', stripMinecraftNamespace r @ ''.png''])) \<and>
       (\<forall>k j rest r. ''side'' \<notin> fst ` set ms \<and> ms = (k, j) # rest \<and>
            (\<forall>k' \<in> fst ` set ms. array_index k' = None) \<and> map_of (rev ms) k = Some (JsonString r) \<longrightarrow>
          getUnpackedItemResource h version item_id =
            Inr (path_join h [dir, ''textures'', ''block'', stripMinecraftNamespace r @ ''.png''])) \<and>
       (\<forall>k n r. ''side'' \<notin> fst ` set ms \<and> k \<in> fst ` set ms \<and> array_index k = Some n \<and>
            (\<forall>k' \<in> fst ` set ms. \<forall>n'. array_index k' = Some n' \<longrightarrow> n \<le> n') \<and>
            map_of (rev ms) k = Some (JsonString r) \<longrightarrow>
          getUnpackedItemResource h version item_id =
            Inr (path_join h [dir, ''textures'', ''block'', stripMinecraftNamespace r @ ''.png''])) \<and>
       (ms = [(''side'', JsonString ''block/foo'')] \<longrightarrow>
          getUnpackedItemResource h version item_id =
            Inr (path_join h [dir, ''textures'', ''block'', ''foo.png''])))"
proof (intro conjI impI allI)
  assume "exists h (path_join h [dir, ''textures'', ''item'', substring_after CHR '':'' item_id @ ''.png''])"
  with dir show "getUnpackedItemResource h version item_id =
      Inr (path_join h [dir, ''textures'', ''item'', substring_after CHR '':'' item_id @ ''.png''])"
    by (simp add: getUnpackedItemResource_def Let_def)
next
  fix r
  assume a: "\<not> exists h (path_join h [dir, ''textures'', ''item'', substring_after CHR '':'' item_id @ ''.png'']) \<and>
     readFile h (path_join h [dir, ''models'', ''block'', substring_after CHR '':'' item_id @ ''.json'']) = Inr blockModel \<and>
     JSON_text h blockModel = Some (JsonObject fs) \<and> map_of (rev fs) ''textures'' = Some (JsonObject ms)"
    and s: "map_of (rev ms) ''side'' = Some (JsonString r)"
  have a1: "\<not> exists h (path_join h [dir, ''textures'', ''item'', substring_after CHR '':'' item_id @ ''.png''])"
    and a2: "readFile h (path_join h [dir, ''models'', ''block'', substring_after CHR '':'' item_id @ ''.json'']) = Inr blockModel"
    and a3: "JSON_text h blockModel = Some (JsonObject fs)"
    and t: "map_of (rev fs) ''textures'' = Some (JsonObject ms)"
    by (insert a) (elim conjE, assumption)+
  have m: "model_texture (JSON_value (JsonObject fs)) = Inr (stripMinecraftNamespace r)"
    by (rule model_texture_side [OF t s])
  show "getUnpackedItemResource h version item_id =
      Inr (path_join h [dir, ''textures'', ''block'', stripMinecraftNamespace r @ ''.png''])"
    by (rule resolve_from_model [OF dir a1 a2 a3 m])
next
  fix k j rest r
  assume a: "\<not> exists h (path_join h [dir, ''textures'', ''item'', substring_after CHR '':'' item_id @ ''.png'']) \<and>
     readFile h (path_join h [dir, ''models'', ''block'', substring_after CHR '':'' item_id @ ''.json'']) = Inr blockModel \<and>
     JSON_text h blockModel = Some (JsonObject fs) \<and> map_of (rev fs) ''textures'' = Some (JsonObject ms)"
    and b: "''side'' \<notin> fst ` set ms \<and> ms = (k, j) # rest \<and>
            (\<forall>k' \<in> fst ` set ms. array_index k' = None) \<and> map_of (rev ms) k = Some (JsonString r)"
  have a1: "\<not> exists h (path_join h [dir, ''textures'', ''item'', substring_after CHR '':'' item_id @ ''.png''])"
    and a2: "readFile h (path_join h [dir, ''models'', ''block'', substring_after CHR '':'' item_id @ ''.json'']) = Inr blockModel"
    and a3: "JSON_text h blockModel = Some (JsonObject fs)"
    and t: "map_of (rev fs) ''textures'' = Some (JsonObject ms)"
    by (insert a) (elim conjE, assumption)+
  have b1: "''side'' \<notin> fst ` set ms" and b2: "ms = (k, j) # rest"
    and b3: "\<forall>k' \<in> fst ` set ms. array_index k' = None"
    and b4: "map_of (rev ms) k = Some (JsonString r)"
    by (insert b) (elim conjE, assumption)+
  have m: "model_texture (JSON_value (JsonObject fs)) = Inr (stripMinecraftNamespace r)"
    by (rule model_texture_first_declared [OF t b1 b2 b3 b4])
  show "getUnpackedItemResource h version item_id =
      Inr (path_join h [dir, ''textures'', ''block'', stripMinecraftNamespace r @ ''.png''])"
    by (rule resolve_from_model [OF dir a1 a2 a3 m])
next
  fix k n r
  assume a: "\<not> exists h (path_join h [dir, ''textures'', ''item'', substring_after CHR '':'' item_id @ ''.png'']) \<and>
     readFile h (path_join h [dir, ''models'', ''block'', substring_after CHR '':'' item_id @ ''.json'']) = Inr blockModel \<and>
     JSON_text h blockModel = Some (JsonObject fs) \<and> map_of (rev fs) ''textures'' = Some (JsonObject ms)"
    and b: "''side'' \<notin> fst ` set ms \<and> k \<in> fst ` set ms \<and> array_index k = Some n \<and>
            (\<forall>k' \<in> fst ` set ms. \<forall>n'. array_index k' = Some n' \<longrightarrow> n \<le> n') \<and>
            map_of (rev ms) k = Some (JsonString r)"
  have a1: "\<not> exists h (path_join h [dir, ''textures'', ''item'', substring_after CHR '':'' item_id @ ''.png''])"
    and a2: "readFile h (path_join h [dir, ''models'', ''block'', substring_after CHR '':'' item_id @ ''.json'']) = Inr blockModel"
    and a3: "JSON_text h blockModel = Some (JsonObject fs)"
    and t: "map_of (rev fs) ''textures'' = Some (JsonObject ms)"
    by (insert a) (elim conjE, assumption)+
  have b1: "''side'' \<notin> fst ` set ms" and b2: "k \<in> fst ` set ms"
    and b3: "array_index k = Some n"
    and b4: "\<forall>k' \<in> fst ` set ms. \<forall>n'. array_index k' = Some n' \<longrightarrow> n \<le> n'"
    and b5: "map_of (rev ms) k = Some (JsonString r)"
    by (insert b) (elim conjE, assumption)+
  have m: "model_texture (JSON_value (JsonObject fs)) = Inr (stripMinecraftNamespace r)"
    by (rule model_texture_least_index [OF t b1 b2 b3 b4 b5])
  show "getUnpackedItemResource h version item_id =
      Inr (path_join h [dir, ''textures'', ''block'', stripMinecraftNamespace r @ ''.png''])"
    by (rule resolve_from_model [OF dir a1 a2 a3 m])
next
  assume a: "\<not> exists h (path_join h [dir, ''textures'', ''item'', substring_after CHR '':'' item_id @ ''.png'']) \<and>
     readFile h (path_join h [dir, ''models'', ''block'', substring_after CHR '':'' item_id @ ''.json'']) = Inr blockModel \<and>
     JSON_text h blockModel = Some (JsonObject fs) \<and> map_of (rev fs) ''textures'' = Some (JsonObject ms)"
    and b: "ms = [(''side'', JsonString ''block/foo'')]"
  have a1: "\<not> exists h (path_join h [dir, ''textures'', ''item'', substring_after CHR '':'' item_id @ ''.png''])"
    and a2: "readFile h (path_join h [dir, ''models'', ''block'', substring_after CHR '':'' item_id @ ''.json'']) = Inr blockModel"
    and a3: "JSON_text h blockModel = Some (JsonObject fs)"
    and t: "map_of (rev fs) ''textures'' = Some (JsonObject ms)"
    by (insert a) (elim conjE, assumption)+
  from b have s: "map_of (rev ms) ''side'' = Some (JsonString ''block/foo'')" by simp
  have n: "stripMinecraftNamespace ''block/foo'' = ''foo''"
    by (simp add: stripMinecraftNamespace_def substring_after_def)
  have m: "model_texture (JSON_value (JsonObject fs)) = Inr ''foo''"
    using model_texture_side [OF t s] by (simp only: n)
  show "getUnpackedItemResource h version item_id = Inr (path_join h [dir, ''textures'', ''block'', ''foo.png''])"
    using resolve_from_model [OF dir a1 a2 a3 m] by simp
qed

text \<open>
  On the example host: \<open>apple\<close> has its sprite; \<open>stone\<close> has the one slot \<open>side\<close>; \<open>dirt\<close>
  has the slots \<open>top\<close> and \<open>all\<close>, and \<open>top\<close> is declared first; \<open>torch\<close> has the slots
  \<open>particle\<close> and \<open>0\<close>, and \<open>0\<close> is an array index.
\<close>

theorem getUnpackedItemResource_precedence_witness:
  "getUnpackedVersionDirectory ex_host ''1.21'' = Inr ''~/.minecraft/.basalt/unpacked/1.21'' \<and>
   exists ex_host ''~/.minecraft/.basalt/unpacked/1.21/textures/item/apple.png'' \<and>
   getUnpackedItemResource ex_host ''1.21'' ''minecraft:apple'' =
     Inr ''~/.minecraft/.basalt/unpacked/1.21/textures/item/apple.png'' \<and>
   \<not> exists ex_host ''~/.minecraft/.basalt/unpacked/1.21/textures/item/stone.png'' \<and>
   readFile ex_host ''~/.minecraft/.basalt/unpacked/1.21/models/block/stone.json'' = Inr stone_json \<and>
   JSON_text ex_host stone_json =
     Some (JsonObject [(''textures'', JsonObject [(''side'', JsonString ''block/foo'')])]) \<and>
   getUnpackedItemResource ex_host ''1.21'' ''minecraft:stone'' =
     Inr ''~/.minecraft/.basalt/unpacked/1.21/textures/block/foo.png'' \<and>
   \<not> exists ex_host ''~/.minecraft/.basalt/unpacked/1.21/textures/item/dirt.png'' \<and>
   readFile ex_host ''~/.minecraft/.basalt/unpacked/1.21/models/block/dirt.json'' = Inr dirt_json \<and>
   JSON_text ex_host dirt_json =
     Some (JsonObject [(''textures'', JsonObject [(''top'', JsonString ''minecraft:block/dirt_top''),
                                                  (''all'', JsonString ''block/dirt'')])]) \<and>
   getUnpackedItemResource ex_host ''1.21'' ''dirt'' =
     Inr ''~/.minecraft/.basalt/unpacked/1.21/textures/block/dirt_top.png'' \<and>
   \<not> exists ex_host ''~/.minecraft/.basalt/unpacked/1.21/textures/item/torch.png'' \<and>
   readFile ex_host ''~/.minecraft/.basalt/unpacked/1.21/models/block/torch.json'' = Inr torch_json \<and>
   JSON_text ex_host torch_json =
     Some (JsonObject [(''textures'', JsonObject [(''particle'', JsonString ''block/particle''),
                                                  (''0'', JsonString ''block/zero'')])]) \<and>
   array_index ''0'' = Some 0 \<and> array_index ''particle'' = None \<and>
   getUnpackedItemResource ex_host ''1.21'' ''torch'' =
     Inr ''~/.minecraft/.basalt/unpacked/1.21/textures/block/zero.png''"
proof -
  let ?d = "''~/.minecraft/.basalt/unpacked/1.21''"
  have e1: "exists ex_host ''~/.minecraft/.basalt/unpacked/1.21/textures/item/apple.png''"
    by (simp add: exists_def ex_accessible)
  have e2: "\<not> exists ex_host ''~/.minecraft/.basalt/unpacked/1.21/textures/item/stone.png''"
    by (simp add: exists_def ex_accessible)
  have e3: "\<not> exists ex_host ''~/.minecraft/.basalt/unpacked/1.21/textures/item/dirt.png''"
    by (simp add: exists_def ex_accessible)
  have e4: "\<not> exists ex_host ''~/.minecraft/.basalt/unpacked/1.21/textures/item/torch.png''"
    by (simp add: exists_def ex_accessible)
  have a: "getUnpackedItemResource ex_host ''1.21'' ''minecraft:apple'' =
     Inr ''~/.minecraft/.basalt/unpacked/1.21/textures/item/apple.png''"
    using getUnpackedItemResource_precedence [OF ex_dir, of "''minecraft:apple''"] e1
    by (simp add: ex_path_join substring_after_def)
  have s: "getUnpackedItemResource ex_host ''1.21'' ''minecraft:stone'' =
     Inr ''~/.minecraft/.basalt/unpacked/1.21/textures/block/foo.png''"
    using getUnpackedItemResource_precedence [OF ex_dir, of "''minecraft:stone''" stone_json
        "[(''textures'', JsonObject [(''side'', JsonString ''block/foo'')])]"
        "[(''side'', JsonString ''block/foo'')]"] e2
    by (simp add: ex_path_join substring_after_def stripMinecraftNamespace_def ex_readFile ex_JSON_text)
  have d: "getUnpackedItemResource ex_host ''1.21'' ''dirt'' =
     Inr ''~/.minecraft/.basalt/unpacked/1.21/textures/block/dirt_top.png''"
    using getUnpackedItemResource_precedence [OF ex_dir, of "''dirt''" dirt_json
        "[(''textures'', JsonObject [(''top'', JsonString ''minecraft:block/dirt_top''),
                                     (''all'', JsonString ''block/dirt'')])]"
        "[(''top'', JsonString ''minecraft:block/dirt_top''), (''all'', JsonString ''block/dirt'')]"] e3
    by (simp add: ex_path_join substring_after_def stripMinecraftNamespace_def ex_readFile ex_JSON_text
        example_keys)
  have t: "getUnpackedItemResource ex_host ''1.21'' ''torch'' =
     Inr ''~/.minecraft/.basalt/unpacked/1.21/textures/block/zero.png''"
    using getUnpackedItemResource_precedence [OF ex_dir, of "''torch''" torch_json
        "[(''textures'', JsonObject [(''particle'', JsonString ''block/particle''),
                                     (''0'', JsonString ''block/zero'')])]"
        "[(''particle'', JsonString ''block/particle''), (''0'', JsonString ''block/zero'')]"] e4
    by (force simp add: ex_path_join substring_after_def stripMinecraftNamespace_def ex_readFile ex_JSON_text
        example_keys example_index)
  from e1 a e2 s e3 d e4 t show ?thesis
    by (simp only: ex_dir ex_readFile ex_JSON_text example_keys example_index simp_thms)
qed

text \<open>
  The claim as it was stated fails in three ways. The model of \<open>torch\<close> declares
  \<open>particle\<close> first and \<open>0\<close> second, and the result is the texture of \<open>0\<close>. The sprite
  of \<open>lamp\<close> is a file that may be read but not written, and the result comes from the
  block model. The reference of \<open>glass\<close> has a namespace and no slash, and the namespace is
  part of the result.
\<close>

theorem getUnpackedItemResource_precedence_counterexample:
  "JSON_text ex_host torch_json =
     Some (JsonObject [(''textures'', JsonObject [(''particle'', JsonString ''block/particle''),
                                                  (''0'', JsonString ''block/zero'')])]) \<and>
   readFile ex_host ''~/.minecraft/.basalt/unpacked/1.21/models/block/torch.json'' = Inr torch_json \<and>
   getUnpackedItemResource ex_host ''1.21'' ''minecraft:torch'' =
     Inr ''~/.minecraft/.basalt/unpacked/1.21/textures/block/zero.png'' \<and>
   accessible ex_host ''~/.minecraft/.basalt/unpacked/1.21/textures/item/lamp.png'' = Some (True, False) \<and>
   getUnpackedItemResource ex_host ''1.21'' ''minecraft:lamp'' =
     Inr ''~/.minecraft/.basalt/unpacked/1.21/textures/block/lamp_side.png'' \<and>
   JSON_text ex_host glass_json =
     Some (JsonObject [(''textures'', JsonObject [(''side'', JsonString ''minecraft:glass'')])]) \<and>
   readFile ex_host ''~/.minecraft/.basalt/unpacked/1.21/models/block/glass.json'' = Inr glass_json \<and>
   getUnpackedItemResource ex_host ''1.21'' ''minecraft:glass'' =
     Inr ''~/.minecraft/.basalt/unpacked/1.21/textures/block/minecraft:glass.png''"
proof -
  have t: "getUnpackedItemResource ex_host ''1.21'' ''minecraft:torch'' =
     Inr ''~/.minecraft/.basalt/unpacked/1.21/textures/block/zero.png''"
    using ex_torch
    by (simp add: getUnpackedItemResource_def Let_def ex_dir JSON_parse_def ex_path_join exists_def
        substring_after_def ex_accessible ex_readFile ex_JSON_text)
  have l: "getUnpackedItemResource ex_host ''1.21'' ''minecraft:lamp'' =
     Inr ''~/.minecraft/.basalt/unpacked/1.21/textures/block/lamp_side.png''"
    using ex_lamp
    by (simp add: getUnpackedItemResource_def Let_def ex_dir JSON_parse_def ex_path_join exists_def
        substring_after_def ex_accessible ex_readFile ex_JSON_text)
  have g: "getUnpackedItemResource ex_host ''1.21'' ''minecraft:glass'' =
     Inr ''~/.minecraft/.basalt/unpacked/1.21/textures/block/minecraft:glass.png''"
    using ex_glass
    by (simp add: getUnpackedItemResource_def Let_def ex_dir JSON_parse_def ex_path_join exists_def
        substring_after_def ex_accessible ex_readFile ex_JSON_text)
  from t l g show ?thesis
    by (simp only: ex_JSON_text ex_readFile ex_accessible simp_thms)
qed

text \<open>
  Claim C8, as amended. On a host where the version's directory resolves, item-sprite
  resolution fails with the error \<open>e\<close> exactly when the item texture does not pass the
  \<open>exists\<close> check and either reading the block-model descriptor fails with \<open>e\<close> (as it
  does when the descriptor does not exist), or the descriptor is read and is not valid
  JSON (\<open>e\<close> is the SyntaxError), or it is parsed and yields no texture name (\<open>e\<close> is the
  TypeError of \<open>model_texture\<close>). The program declares no error type of its own for this.
\<close>

theorem getUnpackedItemResource_fails_iff:
  assumes dir: "getUnpackedVersionDirectory h version = Inr dir"
  shows "getUnpackedItemResource h version item_id = Inl e \<longleftrightarrow>
     \<not> exists h (path_join h [dir, ''textures'', ''item'', substring_after CHR '':'' item_id @ ''.png'']) \<and>
     (readFile h (path_join h [dir, ''models'', ''block'', substring_after CHR '':'' item_id @ ''.json'']) = Inl e \<or>
      (\<exists>blockModel.
         readFile h (path_join h [dir, ''models'', ''block'', substring_after CHR '':'' item_id @ ''.json''])
           = Inr blockModel \<and>
         (JSON_parse h blockModel = None \<and> e = SyntaxError \<or>
          (\<exists>blockData. JSON_parse h blockModel = Some blockData \<and> model_texture blockData = Inl e))))"
  using dir
  by (auto simp: getUnpackedItemResource_def Let_def split: sum.splits option.splits)

theorem getUnpackedItemResource_fails_iff_witness:
  "getUnpackedVersionDirectory ex_host ''1.21'' = Inr ''~/.minecraft/.basalt/unpacked/1.21'' \<and>
   \<not> exists ex_host ''~/.minecraft/.basalt/unpacked/1.21/textures/item/gravel.png'' \<and>
   readFile ex_host ''~/.minecraft/.basalt/unpacked/1.21/models/block/gravel.json'' = Inl (FsError ''ENOENT'') \<and>
   getUnpackedItemResource ex_host ''1.21'' ''minecraft:gravel'' = Inl (FsError ''ENOENT'')"
proof -
  have e: "\<not> exists ex_host ''~/.minecraft/.basalt/unpacked/1.21/textures/item/gravel.png''"
    by (simp add: exists_def ex_accessible)
  have r: "readFile ex_host ''~/.minecraft/.basalt/unpacked/1.21/models/block/gravel.json'' = Inl (FsError ''ENOENT'')"
    by (simp add: ex_readFile)
  have "getUnpackedItemResource ex_host ''1.21'' ''minecraft:gravel'' = Inl (FsError ''ENOENT'')"
    using getUnpackedItemResource_fails_iff [OF ex_dir, of "''minecraft:gravel''" "FsError ''ENOENT''"] e r
    by (simp add: ex_path_join substring_after_def)
  with ex_dir e r show ?thesis by blast
qed

text \<open>
  The block model of \<open>sand\<close> exists and holds \<open>{}\<close>: resolution fails, with a TypeError at
  \<open>"side" in blockData.textures\<close>.
\<close>

theorem getUnpackedItemResource_fails_counterexample:
  "\<not> exists ex_host ''~/.minecraft/.basalt/unpacked/1.21/textures/item/sand.png'' \<and>
   readFile ex_host ''~/.minecraft/.basalt/unpacked/1.21/models/block/sand.json'' = Inr sand_json \<and>
   getUnpackedItemResource ex_host ''1.21'' ''minecraft:sand'' = Inl TypeError"
  by (simp add: getUnpackedItemResource_def Let_def ex_dir ex_path_join exists_def ex_accessible
      ex_readFile ex_JSON_text JSON_parse_def substring_after_def model_texture_def
      blockData_textures_def select_texture_def object_of_def)

section \<open>Theorems: version asset manager\<close>

lemmas manager_defs = init_def resume_def io_ok_def io_error_def settle_def call_result_def

lemma liveI:
  assumes "\<And>t v ph. t < length (tasks s) \<Longrightarrow> tasks s ! t = (v, Pending ph) \<Longrightarrow> runningUnpackTasks s v = Some t"
    and "\<And>v t. runningUnpackTasks s v = Some t \<Longrightarrow> t < length (tasks s) \<and> (\<exists>ph. tasks s ! t = (v, Pending ph))"
  shows "live s"
  using assms unfolding live_def by blast

lemma liveD1: "live s \<Longrightarrow> t < length (tasks s) \<Longrightarrow> tasks s ! t = (v, Pending ph) \<Longrightarrow> runningUnpackTasks s v = Some t"
  unfolding live_def by blast

lemma liveD2: "live s \<Longrightarrow> runningUnpackTasks s v = Some t \<Longrightarrow> t < length (tasks s) \<and> (\<exists>ph. tasks s ! t = (v, Pending ph))"
  unfolding live_def by blast

lemma live_calls: "live (s\<lparr> calls := c \<rparr>) = live s"
  by (simp add: live_def)

lemma live_unpacked: "live (s\<lparr> unpacked := u, tasks := ts \<rparr>) = live (s\<lparr> tasks := ts \<rparr>)"
  by (simp add: live_def)

lemma live_retag:
  assumes s: "live s" and t: "t < length (tasks s)" and p: "tasks s ! t = (v, Pending ph)"
  shows "live (s\<lparr> tasks := (tasks s)[t := (v, Pending ph')] \<rparr>)"
proof (rule liveI)
  fix t' v' q
  assume "t' < length (tasks (s\<lparr>tasks := (tasks s)[t := (v, Pending ph')]\<rparr>))"
    and "tasks (s\<lparr>tasks := (tasks s)[t := (v, Pending ph')]\<rparr>) ! t' = (v', Pending q)"
  then have t': "t' < length (tasks s)" and n: "(tasks s)[t := (v, Pending ph')] ! t' = (v', Pending q)"
    by simp_all
  show "runningUnpackTasks (s\<lparr>tasks := (tasks s)[t := (v, Pending ph')]\<rparr>) v' = Some t'"
  proof (cases "t' = t")
    case True
    with n t have "v' = v" by simp
    with True liveD1 [OF s t p] show ?thesis by simp
  next
    case False
    with n have "tasks s ! t' = (v', Pending q)" by simp
    from liveD1 [OF s t' this] show ?thesis by simp
  qed
next
  fix v' t'
  assume "runningUnpackTasks (s\<lparr>tasks := (tasks s)[t := (v, Pending ph')]\<rparr>) v' = Some t'"
  then have r: "runningUnpackTasks s v' = Some t'" by simp
  from liveD2 [OF s r] obtain q where t': "t' < length (tasks s)" and q: "tasks s ! t' = (v', Pending q)"
    by blast
  have "\<exists>ph. (tasks s)[t := (v, Pending ph')] ! t' = (v', Pending ph)"
  proof (cases "t' = t")
    case True
    with q p have "v' = v" by simp
    with True t show ?thesis by simp
  next
    case False
    with q show ?thesis by simp
  qed
  with t' show "t' < length (tasks (s\<lparr>tasks := (tasks s)[t := (v, Pending ph')]\<rparr>)) \<and>
      (\<exists>ph. tasks (s\<lparr>tasks := (tasks s)[t := (v, Pending ph')]\<rparr>) ! t' = (v', Pending ph))"
    by simp
qed

lemma live_settle:
  assumes s: "live s" and t: "t < length (tasks s)" and p: "tasks s ! t = (v, Pending ph)"
    and st: "\<And>q. st \<noteq> Pending q"
  shows "live (settle t v st s)"
proof (rule liveI)
  fix t' v' q
  assume "t' < length (tasks (settle t v st s))" and "tasks (settle t v st s) ! t' = (v', Pending q)"
  then have t': "t' < length (tasks s)" and n: "(tasks s)[t := (v, st)] ! t' = (v', Pending q)"
    by (simp_all add: settle_def)
  from n t st have ne: "t' \<noteq> t" by auto
  with n have q: "tasks s ! t' = (v', Pending q)" by simp
  have r: "runningUnpackTasks s v' = Some t'" by (rule liveD1 [OF s t' q])
  have "v' \<noteq> v"
  proof
    assume "v' = v"
    with r liveD1 [OF s t p] have "t' = t" by simp
    with ne show False by simp
  qed
  with r show "runningUnpackTasks (settle t v st s) v' = Some t'"
    by (simp add: settle_def)
next
  fix v' t'
  assume a: "runningUnpackTasks (settle t v st s) v' = Some t'"
  then have vv: "v' \<noteq> v" by (auto simp: settle_def split: if_splits)
  with a have r: "runningUnpackTasks s v' = Some t'" by (simp add: settle_def)
  from liveD2 [OF s r] obtain q where t': "t' < length (tasks s)" and q: "tasks s ! t' = (v', Pending q)"
    by blast
  from q p vv have "t' \<noteq> t" by auto
  with t' q show "t' < length (tasks (settle t v st s)) \<and> (\<exists>ph. tasks (settle t v st s) ! t' = (v', Pending ph))"
    by (simp add: settle_def)
qed

lemma live_start:
  assumes s: "live s" and none: "runningUnpackTasks s v = None"
  shows "live (s\<lparr> tasks := tasks s @ [(v, Pending MkdirUnpacked)],
                runningUnpackTasks := (runningUnpackTasks s)(v \<mapsto> length (tasks s)) \<rparr>)"
    (is "live ?s'")
proof (rule liveI)
  fix t' v' q
  assume "t' < length (tasks ?s')" and "tasks ?s' ! t' = (v', Pending q)"
  then have t': "t' < Suc (length (tasks s))" and n: "(tasks s @ [(v, Pending MkdirUnpacked)]) ! t' = (v', Pending q)"
    by simp_all
  show "runningUnpackTasks ?s' v' = Some t'"
  proof (cases "t' = length (tasks s)")
    case True
    with n have "v' = v" by simp
    with True show ?thesis by simp
  next
    case False
    with t' have lt: "t' < length (tasks s)" by simp
    with n have q: "tasks s ! t' = (v', Pending q)" by (simp add: nth_append)
    have r: "runningUnpackTasks s v' = Some t'" by (rule liveD1 [OF s lt q])
    with none have "v' \<noteq> v" by auto
    with r show ?thesis by simp
  qed
next
  fix v' t'
  assume a: "runningUnpackTasks ?s' v' = Some t'"
  show "t' < length (tasks ?s') \<and> (\<exists>ph. tasks ?s' ! t' = (v', Pending ph))"
  proof (cases "v' = v")
    case True
    with a have "t' = length (tasks s)" by simp
    with True show ?thesis by simp
  next
    case False
    with a have r: "runningUnpackTasks s v' = Some t'" by simp
    from liveD2 [OF s r] obtain q where "t' < length (tasks s)" and "tasks s ! t' = (v', Pending q)"
      by blast
    then show ?thesis by (simp add: nth_append)
  qed
qed

lemma live_step: "live s \<Longrightarrow> live (step e s)"
proof (cases e)
  case (Call v)
  assume "live s" then show ?thesis using Call by (simp add: live_calls)
next
  case (Access n)
  assume "live s" then show ?thesis using Access by (simp add: live_calls split: call.splits)
next
  case (Resume n)
  assume s: "live s"
  show ?thesis
    using s Resume by (auto simp: resume_def live_calls live_start split: call.splits option.splits)
next
  case (Io t r)
  assume s: "live s"
  show ?thesis
  proof (cases "t < length (tasks s)")
    case False
    with s Io show ?thesis by simp
  next
    case True
    obtain v st where vs: "tasks s ! t = (v, st)" by (cases "tasks s ! t")
    show ?thesis
    proof (cases st)
      case (Pending ph)
      note p = vs [unfolded Pending]
      show ?thesis
      proof (cases r)
        case None
        with s Io True p show ?thesis
          by (cases ph) (simp_all add: io_ok_def live_retag live_unpacked)
      next
        case (Some err)
        with s Io True p show ?thesis
          by (cases ph) (simp_all add: io_error_def live_retag live_settle)
      qed
    next
      case Fulfilled
      with s Io True vs show ?thesis by simp
    next
      case (Rejected x)
      with s Io True vs show ?thesis by simp
    qed
  qed
next
  case (Exit t code)
  assume s: "live s"
  show ?thesis
  proof (cases "t < length (tasks s)")
    case False
    with s Exit show ?thesis by simp
  next
    case True
    obtain v st where vs: "tasks s ! t = (v, st)" by (cases "tasks s ! t")
    show ?thesis
    proof (cases st)
      case (Pending ph)
      with s Exit True vs show ?thesis
        by (cases ph) (simp_all add: live_settle)
    next
      case Fulfilled
      with s Exit True vs show ?thesis by simp
    next
      case (Rejected x)
      with s Exit True vs show ?thesis by simp
    qed
  qed
qed

lemma live_run: "live s \<Longrightarrow> live (run es s)"
  by (induction es arbitrary: s) (simp_all add: live_step)

lemma live_reachable: "live (run es init)"
  by (rule live_run) (simp add: live_def init_def)

text \<open>
  At any time at most one task of a version is pending, and the table holds exactly the
  pending tasks: the entry is set when the task starts and removed when it settles.
\<close>

lemma at_most_one_pending_task:
  assumes "t1 < length (tasks (run es init))" "t2 < length (tasks (run es init))"
    and "tasks (run es init) ! t1 = (v, Pending p1)" "tasks (run es init) ! t2 = (v, Pending p2)"
  shows "t1 = t2"
proof -
  have "runningUnpackTasks (run es init) v = Some t1"
    by (rule liveD1 [OF live_reachable assms(1) assms(3)])
  moreover have "runningUnpackTasks (run es init) v = Some t2"
    by (rule liveD1 [OF live_reachable assms(2) assms(4)])
  ultimately show ?thesis by simp
qed

text \<open>
  Claim C1 says that every call of \<open>ensureUnpackedVersion(V)\<close> issued after a task for
  \<open>V\<close> has started and before it settles returns that task, and that a call after a
  failure starts a fresh task. The first step of the task creates the version's
  directory, and \<open>ensureUnpackedVersion\<close> returns at once when that directory exists.
  In the first run below the second call is issued while task 0 is pending at its second
  \<open>mkdir\<close>: it returns without the task. In the second run the archive extraction of
  task 0 fails, the entry is removed, and the next call returns at once: no second task
  is started.
\<close>

theorem ensureUnpackedVersion_returns_while_unpacking:
  "calls (run [Call ''1.21'', Access 0, Resume 0, Io 0 None, Call ''1.21'', Access 1, Resume 1] init)
     = [ReturnedTask 0, ReturnedVoid] \<and>
   tasks (run [Call ''1.21'', Access 0, Resume 0, Io 0 None, Call ''1.21'', Access 1, Resume 1] init)
     = [(''1.21'', Pending MkdirDatagen)] \<and>
   runningUnpackTasks (run [Call ''1.21'', Access 0, Resume 0, Io 0 None, Call ''1.21'', Access 1, Resume 1] init) ''1.21''
     = Some 0 \<and>
   calls (run [Call ''1.21'', Access 0, Resume 0, Io 0 None, Io 0 None, Io 0 None, Io 0 (Some (FsError ''ENOENT'')),
               Call ''1.21'', Access 1, Resume 1] init)
     = [ReturnedTask 0, ReturnedVoid] \<and>
   tasks (run [Call ''1.21'', Access 0, Resume 0, Io 0 None, Io 0 None, Io 0 None, Io 0 (Some (FsError ''ENOENT'')),
               Call ''1.21'', Access 1, Resume 1] init)
     = [(''1.21'', Rejected (FsError ''ENOENT''))] \<and>
   runningUnpackTasks (run [Call ''1.21'', Access 0, Resume 0, Io 0 None, Io 0 None, Io 0 None, Io 0 (Some (FsError ''ENOENT'')),
               Call ''1.21'', Access 1, Resume 1] init) ''1.21''
     = None"
  by (simp add: manager_defs)

text \<open>
  Claim C2, as amended. The exit code of the generator process is not read: when the
  process of a pending task exits, with any code, the task is fulfilled, the entry of its
  version is removed from \<open>runningUnpackTasks\<close>, and every call that returned this task
  sees it fulfilled. A task is rejected when one of its \<open>mkdir\<close> calls or the archive
  extraction throws: then the entry is removed and every call that returned this task
  sees the rejection with that error.
\<close>

theorem unpackVersion_settles:
  assumes t: "t < length (tasks s)"
  shows
   "(tasks s ! t = (v, Pending ChildProcess) \<longrightarrow>
       tasks (step (Exit t code) s) ! t = (v, Fulfilled) \<and>
       runningUnpackTasks (step (Exit t code) s) v = None \<and>
       (\<forall>n < length (calls s). calls s ! n = ReturnedTask t \<longrightarrow>
          call_result (step (Exit t code) s) n = Some Fulfilled)) \<and>
    (tasks s ! t = (v, Pending ph) \<and> ph \<in> {MkdirUnpacked, MkdirDatagen, MkdirFonts, Extract} \<longrightarrow>
       tasks (step (Io t (Some e)) s) ! t = (v, Rejected e) \<and>
       runningUnpackTasks (step (Io t (Some e)) s) v = None \<and>
       (\<forall>n < length (calls s). calls s ! n = ReturnedTask t \<longrightarrow>
          call_result (step (Io t (Some e)) s) n = Some (Rejected e)))"
  using t by (auto simp: manager_defs)

theorem unpackVersion_settles_witness:
  "0 < length (tasks at_child_process) \<and>
   tasks at_child_process ! 0 = (''1.21'', Pending ChildProcess) \<and>
   calls at_child_process = [ReturnedTask 0, ReturnedTask 0] \<and>
   tasks (step (Exit 0 1) at_child_process) ! 0 = (''1.21'', Fulfilled) \<and>
   runningUnpackTasks (step (Exit 0 1) at_child_process) ''1.21'' = None \<and>
   call_result (step (Exit 0 1) at_child_process) 1 = Some Fulfilled \<and>
   0 < length (tasks at_extract) \<and>
   tasks at_extract ! 0 = (''1.21'', Pending Extract) \<and>
   calls at_extract = [ReturnedTask 0, ReturnedTask 0] \<and>
   tasks (step (Io 0 (Some (FsError ''ENOENT''))) at_extract) ! 0 = (''1.21'', Rejected (FsError ''ENOENT'')) \<and>
   runningUnpackTasks (step (Io 0 (Some (FsError ''ENOENT''))) at_extract) ''1.21'' = None \<and>
   call_result (step (Io 0 (Some (FsError ''ENOENT''))) at_extract) 1 = Some (Rejected (FsError ''ENOENT''))"
proof -
  have l1: "0 < length (tasks at_child_process)"
    by (simp add: at_child_process_def manager_defs)
  have p1: "tasks at_child_process ! 0 = (''1.21'', Pending ChildProcess)"
    by (simp add: at_child_process_def manager_defs)
  have c1: "calls at_child_process = [ReturnedTask 0, ReturnedTask 0]"
    by (simp add: at_child_process_def manager_defs)
  have l2: "0 < length (tasks at_extract)"
    by (simp add: at_extract_def manager_defs)
  have p2: "tasks at_extract ! 0 = (''1.21'', Pending Extract)"
    by (simp add: at_extract_def manager_defs)
  have c2: "calls at_extract = [ReturnedTask 0, ReturnedTask 0]"
    by (simp add: at_extract_def manager_defs)
  from unpackVersion_settles [OF l1, of "''1.21''" 1] p1 c1
  have a: "tasks (step (Exit 0 1) at_child_process) ! 0 = (''1.21'', Fulfilled) \<and>
      runningUnpackTasks (step (Exit 0 1) at_child_process) ''1.21'' = None \<and>
      call_result (step (Exit 0 1) at_child_process) 1 = Some Fulfilled"
    by simp
  from unpackVersion_settles [OF l2, of "''1.21''" _ Extract "FsError ''ENOENT''"] p2 c2
  have b: "tasks (step (Io 0 (Some (FsError ''ENOENT''))) at_extract) ! 0 = (''1.21'', Rejected (FsError ''ENOENT'')) \<and>
      runningUnpackTasks (step (Io 0 (Some (FsError ''ENOENT''))) at_extract) ''1.21'' = None \<and>
      call_result (step (Io 0 (Some (FsError ''ENOENT''))) at_extract) 1 = Some (Rejected (FsError ''ENOENT''))"
    by simp
  from l1 p1 c1 a l2 p2 c2 b show ?thesis by blast
qed

text \<open>
  The generator process exits with code 1: the task is fulfilled, not rejected, and the
  call that returned it sees it fulfilled.
\<close>

theorem unpackVersion_exit_code_counterexample:
  "tasks (step (Exit 0 1) at_child_process) ! 0 = (''1.21'', Fulfilled) \<and>
   call_result (step (Exit 0 1) at_child_process) 0 = Some Fulfilled \<and>
   (\<nexists>e. call_result (step (Exit 0 1) at_child_process) 0 = Some (Rejected e))"
  by (simp add: at_child_process_def manager_defs)

section \<open>Theorems: message validation\<close>

text \<open>
  Claim C7. On the host, a message that \<open>ClientMessages\<close> does not accept leaves the
  document as it was, posts no message, fires no event and rejects nothing; in the
  webview, a message that \<open>ServerMessages\<close> does not accept leaves the state as it was.
  So a handler run that changes or posts something was given a message that validates.
  (Both handlers write the raw message to the console before they validate it.)
\<close>

theorem invalid_message_dropped:
  "(ClientMessages z data = None \<longrightarrow>
      onDidReceiveMessage z e d data = \<lparr> doc = d, posted = [], fired = 0, rejected = None \<rparr>) \<and>
   (onDidReceiveMessage z e d data \<noteq> \<lparr> doc = d, posted = [], fired = 0, rejected = None \<rparr> \<longrightarrow>
      ClientMessages z data \<noteq> None) \<and>
   (ServerMessages z data = None \<longrightarrow> on_server_message z st data = st) \<and>
   (on_server_message z st data \<noteq> st \<longrightarrow> ServerMessages z data \<noteq> None)"
proof -
  have host_side: "ClientMessages z data = None \<longrightarrow>
      onDidReceiveMessage z e d data = \<lparr> doc = d, posted = [], fired = 0, rejected = None \<rparr>"
    by (simp add: onDidReceiveMessage_def unchanged_def)
  have webview_side: "ServerMessages z data = None \<longrightarrow> on_server_message z st data = st"
    by (simp add: on_server_message_def)
  from host_side webview_side show ?thesis by blast
qed

text \<open>
  An \<open>update-item\<close> message whose count is not a number is dropped by both sides; the same
  message with the count 3 is acted upon by both.
\<close>

theorem invalid_message_dropped_witness:
  "ClientMessages Zod4 nan_update = None \<and>
   onDidReceiveMessage Zod4 ex_server ex_document nan_update =
     \<lparr> doc = ex_document, posted = [], fired = 0, rejected = None \<rparr> \<and>
   ServerMessages Zod4 nan_update = None \<and>
   on_server_message Zod4 ex_app nan_update = ex_app \<and>
   onDidReceiveMessage Zod4 ex_server ex_document ok_update =
     \<lparr> doc = \<lparr> doc_item = Some \<lparr> minecraftVersion = ''1.21'', id = ''stone'', count = Finite 3, components = [] \<rparr>,
               doc_hash = Some ''1.21stone'' \<rparr>,
       posted = [UpdateItemComponentsMessage [''minecraft:lore'', ''minecraft:enchantments'']],
       fired = 1, rejected = None \<rparr> \<and>
   ClientMessages Zod4 ok_update \<noteq> None \<and>
   editedItem (on_server_message Zod4 ex_app ok_update) =
     Some \<lparr> minecraftVersion = ''1.21'', id = ''stone'', count = Finite 3, components = [] \<rparr> \<and>
   ServerMessages Zod4 ok_update \<noteq> None"
proof -
  have c: "ClientMessages Zod4 nan_update = None"
    by (simp add: schema_defs nan_update_def)
  have s: "ServerMessages Zod4 nan_update = None"
    by (simp add: schema_defs nan_update_def)
  from invalid_message_dropped [of Zod4 nan_update ex_server ex_document ex_app] c s
  have a: "onDidReceiveMessage Zod4 ex_server ex_document nan_update =
      \<lparr> doc = ex_document, posted = [], fired = 0, rejected = None \<rparr>"
    and b: "on_server_message Zod4 ex_app nan_update = ex_app"
    by blast+
  have o: "onDidReceiveMessage Zod4 ex_server ex_document ok_update =
     \<lparr> doc = \<lparr> doc_item = Some \<lparr> minecraftVersion = ''1.21'', id = ''stone'', count = Finite 3, components = [] \<rparr>,
               doc_hash = Some ''1.21stone'' \<rparr>,
       posted = [UpdateItemComponentsMessage [''minecraft:lore'', ''minecraft:enchantments'']],
       fired = 1, rejected = None \<rparr>"
    by (simp add: onDidReceiveMessage_def on_update_item_def document_write_def ex_server_def
        ex_document_def host.extend_def server.fields_def schema_defs ok_update_def Let_def)
  then have o': "onDidReceiveMessage Zod4 ex_server ex_document ok_update \<noteq>
      \<lparr> doc = ex_document, posted = [], fired = 0, rejected = None \<rparr>"
    by simp
  have p: "editedItem (on_server_message Zod4 ex_app ok_update) =
     Some \<lparr> minecraftVersion = ''1.21'', id = ''stone'', count = Finite 3, components = [] \<rparr>"
    by (simp add: on_server_message_def schema_defs ok_update_def)
  then have p': "on_server_message Zod4 ex_app ok_update \<noteq> ex_app"
    by (auto simp: ex_app_def)
  from invalid_message_dropped [of Zod4 ok_update ex_server ex_document ex_app] o' p'
  have v: "ClientMessages Zod4 ok_update \<noteq> None" and w: "ServerMessages Zod4 ok_update \<noteq> None"
    by blast+
  from c a s b o v p w show ?thesis by blast
qed

section \<open>Theorems: the persisted document\<close>

lemma string_entries_map:
  "''__proto__'' \<notin> fst ` set cs \<Longrightarrow> string_entries z (map (\<lambda>(k, v). (k, JStr v)) cs) = Some cs"
  by (induction cs) (auto simp: z_string_def)

lemma Item_schema_to_js:
  "count it = Finite r \<Longrightarrow> ''__proto__'' \<notin> fst ` set (components it) \<Longrightarrow>
     Item_schema z (Item_to_js it) = Some it"
  by (simp add: Item_to_js_def Item_schema_def get_property_def z_string_def z_number_def
        z_record_string_string_def string_entries_map)

lemma read_stringify_strings:
  "read_members (stringify_properties (map (\<lambda>(k, v). (k, JStr v)) cs)) = map (\<lambda>(k, v). (k, JStr v)) cs"
  by (induction cs) auto

lemma object_list_map: "object_list (map (\<lambda>(k, v). (k, f v)) cs) = object_list cs"
  by (simp add: object_list_def sorted_wrt_map case_prod_unfold)

lemma Item_keys:
  "array_index ''minecraftVersion'' = None" "array_index ''id'' = None"
  "array_index ''count'' = None" "array_index ''components'' = None"
  by (simp_all add: array_index_def is_digit_def)

lemma Item_object:
  "object_of [(''minecraftVersion'', a), (''id'', b), (''count'', c), (''components'', d)] =
     [(''minecraftVersion'', a), (''id'', b), (''count'', c), (''components'', d)]"
  by (simp add: object_of_def precedes_def Item_keys)

lemma reload_Item:
  assumes "count it = Finite r" and "object_list (components it)"
  shows "map_option JSON_value (JSON_stringify (Item_to_js it)) = Some (Item_to_js it)"
proof -
  have "object_of (map (\<lambda>(k, v). (k, JStr v)) (components it)) = map (\<lambda>(k, v). (k, JStr v)) (components it)"
    by (rule object_of_object_list) (simp add: object_list_map assms(2))
  then show ?thesis
    by (simp add: Item_to_js_def read_stringify_strings assms(1) Item_object)
qed

lemma lore_keys: "array_index ''minecraft:lore'' = None" "array_index ''minecraft:enchantments'' = None"
  by (simp_all add: array_index_def is_digit_def)

text \<open>
  Claim C9, as amended. For every item whose count is a finite number and whose components
  have no entry named \<open>__proto__\<close>, under either major version of the schema library: the
  \<open>Item\<close> schema accepts the item, and the document that \<open>init\<close> reads from what
  \<open>saveCustomDocumentAs\<close> wrote holds that item again, with the same version, id, count
  and components. In particular empty components are read back as empty components. (The
  components of an item are the property list of an object: no name twice, array indices
  first and ascending.)
\<close>

theorem Item_roundtrip:
  assumes "count it = Finite r" and "''__proto__'' \<notin> fst ` set (components it)"
    and "object_list (components it)"
  shows "valid_Item z it \<and>
         document_init z h (saveCustomDocumentAs \<lparr> doc_item = Some it, doc_hash = old \<rparr>) =
           \<lparr> doc_item = Some it, doc_hash = Some (h it) \<rparr> \<and>
         (components it = [] \<longrightarrow>
            map_option components
              (doc_item (document_init z h (saveCustomDocumentAs \<lparr> doc_item = Some it, doc_hash = old \<rparr>))) = Some [])"
proof -
  from reload_Item [OF assms(1) assms(3)] obtain j where j: "JSON_stringify (Item_to_js it) = Some j"
    and rd: "JSON_value j = Item_to_js it" by auto
  have s: "saveCustomDocumentAs \<lparr> doc_item = Some it, doc_hash = old \<rparr> = Some j"
    by (simp add: saveCustomDocumentAs_def j)
  have v: "valid_Item z it"
    by (simp add: valid_Item_def Item_schema_to_js [OF assms(1) assms(2)])
  from s v show ?thesis
    by (simp add: document_init_def rd Item_schema_to_js [OF assms(1) assms(2)])
qed

text \<open>An item with two components, and the item with none.\<close>

theorem Item_roundtrip_witness:
  "count (ex_item [(''minecraft:lore'', ''old''), (''minecraft:enchantments'', ''{sharpness:3}'')]) = Finite 1 \<and>
   ''__proto__'' \<notin> fst ` set (components
      (ex_item [(''minecraft:lore'', ''old''), (''minecraft:enchantments'', ''{sharpness:3}'')])) \<and>
   object_list (components (ex_item [(''minecraft:lore'', ''old''), (''minecraft:enchantments'', ''{sharpness:3}'')])) \<and>
   valid_Item Zod4 (ex_item [(''minecraft:lore'', ''old''), (''minecraft:enchantments'', ''{sharpness:3}'')]) \<and>
   document_init Zod4 (\<lambda>it. minecraftVersion it @ id it)
       (saveCustomDocumentAs \<lparr> doc_item = Some (ex_item [(''minecraft:lore'', ''old''),
           (''minecraft:enchantments'', ''{sharpness:3}'')]), doc_hash = None \<rparr>) =
     \<lparr> doc_item = Some (ex_item [(''minecraft:lore'', ''old''), (''minecraft:enchantments'', ''{sharpness:3}'')]),
       doc_hash = Some ''1.21minecraft:stone'' \<rparr> \<and>
   components (ex_item []) = [] \<and>
   saveCustomDocumentAs \<lparr> doc_item = Some (ex_item []), doc_hash = None \<rparr> =
     Some (JsonObject [(''minecraftVersion'', JsonString ''1.21''), (''id'', JsonString ''minecraft:stone''),
                       (''count'', JsonNumber 1), (''components'', JsonObject [])]) \<and>
   map_option components
     (doc_item (document_init Zod3 (\<lambda>it. minecraftVersion it @ id it)
        (saveCustomDocumentAs \<lparr> doc_item = Some (ex_item []), doc_hash = None \<rparr>))) = Some []"
proof -
  let ?it = "ex_item [(''minecraft:lore'', ''old''), (''minecraft:enchantments'', ''{sharpness:3}'')]"
  have c: "count ?it = Finite 1"
    by (simp add: ex_item_def)
  have p: "''__proto__'' \<notin> fst ` set (components ?it)"
    by (simp add: ex_item_def)
  have l: "object_list (components ?it)"
    by (simp add: ex_item_def object_list_def precedes_def lore_keys)
  from Item_roundtrip [OF c p l, of Zod4 "\<lambda>it. minecraftVersion it @ id it" None]
  have v: "valid_Item Zod4 ?it"
    and d: "document_init Zod4 (\<lambda>it. minecraftVersion it @ id it)
       (saveCustomDocumentAs \<lparr> doc_item = Some ?it, doc_hash = None \<rparr>) =
     \<lparr> doc_item = Some ?it, doc_hash = Some ''1.21minecraft:stone'' \<rparr>"
    by (simp_all add: ex_item_def)
  have c0: "count (ex_item []) = Finite 1" and p0: "''__proto__'' \<notin> fst ` set (components (ex_item []))"
    and l0: "object_list (components (ex_item []))" and e: "components (ex_item []) = []"
    by (simp_all add: ex_item_def object_list_def)
  have s: "saveCustomDocumentAs \<lparr> doc_item = Some (ex_item []), doc_hash = None \<rparr> =
     Some (JsonObject [(''minecraftVersion'', JsonString ''1.21''), (''id'', JsonString ''minecraft:stone''),
                       (''count'', JsonNumber 1), (''components'', JsonObject [])])"
    by (simp add: saveCustomDocumentAs_def Item_to_js_def ex_item_def)
  from Item_roundtrip [OF c0 p0 l0, of Zod3 "\<lambda>it. minecraftVersion it @ id it" None] e
  have m: "map_option components
     (doc_item (document_init Zod3 (\<lambda>it. minecraftVersion it @ id it)
        (saveCustomDocumentAs \<lparr> doc_item = Some (ex_item []), doc_hash = None \<rparr>))) = Some []"
    by blast
  from c p l v d e s m show ?thesis by blast
qed

text \<open>
  Two valid items that are not read back. An item with a component named \<open>__proto__\<close> is
  accepted by the schema of either version, is saved with that component, and is opened
  without it, because the record schema leaves that name out of its result. An item whose
  count is infinite is accepted by the schema of version 3, is saved with the count
  \<open>null\<close>, and the saved document is opened as no item.
\<close>

theorem Item_roundtrip_counterexample:
  "valid_Item Zod3 (ex_item [(''__proto__'', ''x'')]) \<and>
   valid_Item Zod4 (ex_item [(''__proto__'', ''x'')]) \<and>
   saveCustomDocumentAs \<lparr> doc_item = Some (ex_item [(''__proto__'', ''x'')]), doc_hash = None \<rparr> =
     Some (JsonObject [(''minecraftVersion'', JsonString ''1.21''), (''id'', JsonString ''minecraft:stone''),
                       (''count'', JsonNumber 1), (''components'', JsonObject [(''__proto__'', JsonString ''x'')])]) \<and>
   doc_item (document_init Zod3 (\<lambda>it. minecraftVersion it @ id it)
       (saveCustomDocumentAs \<lparr> doc_item = Some (ex_item [(''__proto__'', ''x'')]), doc_hash = None \<rparr>)) =
     Some (ex_item []) \<and>
   doc_item (document_init Zod4 (\<lambda>it. minecraftVersion it @ id it)
       (saveCustomDocumentAs \<lparr> doc_item = Some (ex_item [(''__proto__'', ''x'')]), doc_hash = None \<rparr>)) =
     Some (ex_item []) \<and>
   ex_item [] \<noteq> ex_item [(''__proto__'', ''x'')] \<and>
   valid_Item Zod3 \<lparr> minecraftVersion = ''1.21'', id = ''minecraft:stone'', count = PosInfinity, components = [] \<rparr> \<and>
   saveCustomDocumentAs \<lparr> doc_item = Some \<lparr> minecraftVersion = ''1.21'', id = ''minecraft:stone'',
       count = PosInfinity, components = [] \<rparr>, doc_hash = None \<rparr> =
     Some (JsonObject [(''minecraftVersion'', JsonString ''1.21''), (''id'', JsonString ''minecraft:stone''),
                       (''count'', JsonNull), (''components'', JsonObject [])]) \<and>
   doc_item (document_init Zod3 (\<lambda>it. minecraftVersion it @ id it)
       (saveCustomDocumentAs \<lparr> doc_item = Some \<lparr> minecraftVersion = ''1.21'', id = ''minecraft:stone'',
           count = PosInfinity, components = [] \<rparr>, doc_hash = None \<rparr>)) = None"
  by (simp add: valid_Item_def Item_to_js_def Item_schema_def get_property_def z_string_def z_number_def
        z_record_string_string_def ex_item_def saveCustomDocumentAs_def document_init_def Item_object
        object_of_def)

end
